theory Spec2Isabelle
  imports Main
begin

section \<open>The outside world of the FFmpeg processor\<close>

text \<open>
  The MCP server (\<^verbatim>\<open>src/mcp-ffmpeg.ts\<close>, lines 1 to 476) and the HTTP controller
  (\<^verbatim>\<open>controllers/ffmpegController.js\<close>, which follows the server in the same source
  file as lines 476 to 603, with its routes in \<^verbatim>\<open>server.js\<close>) do no media
  processing of their own: they check arguments, ask the file system, ask the desktop
  notifier and start \<^verbatim>\<open>ffmpeg\<close>/\<^verbatim>\<open>ffprobe\<close>. The model makes every such call an
  \<open>event\<close> of a trace, and takes the answer of the outside world from an oracle that
  may depend on everything that has happened so far (the history, oldest event first).
\<close>

datatype event =
    FsAccess string        \<comment> \<open>\<^verbatim>\<open>fs.access(path)\<close>\<close>
  | FsAccessW string       \<comment> \<open>\<^verbatim>\<open>fs.access(path, fs.constants.W_OK)\<close>\<close>
  | FsMkdir string         \<comment> \<open>\<^verbatim>\<open>fs.mkdir(path, { recursive: true })\<close>\<close>
  | Notify string          \<comment> \<open>\<^verbatim>\<open>notifier.notify\<close> with this message\<close>
  | Exec string            \<comment> \<open>\<^verbatim>\<open>execAsync(command)\<close>\<close>
  | ConsoleLog string
  | ConsoleError string

text \<open>
  What the notifier hands to its callback \<^verbatim>\<open>(err, response, metadata)\<close>. A JavaScript
  value that is a string or \<^verbatim>\<open>undefined\<close>/\<^verbatim>\<open>null\<close> is a \<open>string option\<close>;
  \<open>nr_metadata\<close> is \<open>None\<close> when \<^verbatim>\<open>metadata\<close> itself is undefined, and
  \<open>Some None\<close> when it has no \<^verbatim>\<open>activationValue\<close>.
\<close>

record notify_reply =
  nr_err :: "string option"
  nr_response :: "string option"
  nr_metadata :: "string option option"

record world =
  env :: "string \<Rightarrow> string option"                          \<comment> \<open>\<^verbatim>\<open>process.env\<close>\<close>
  tmpdir :: string                                             \<comment> \<open>\<^verbatim>\<open>os.tmpdir()\<close>\<close>
  fs_access :: "event list \<Rightarrow> string \<Rightarrow> bool"                \<comment> \<open>does \<^verbatim>\<open>fs.access\<close> resolve?\<close>
  fs_access_w :: "event list \<Rightarrow> string \<Rightarrow> bool"
  fs_mkdir :: "event list \<Rightarrow> string \<Rightarrow> string option"       \<comment> \<open>\<open>Some\<close> the error of a rejected mkdir\<close>
  notify :: "event list \<Rightarrow> string \<Rightarrow> notify_reply option"   \<comment> \<open>\<open>None\<close>: the callback never fires\<close>
  exec :: "event list \<Rightarrow> string \<Rightarrow> string + string"         \<comment> \<open>\<open>Inl\<close> the error message, \<open>Inr\<close> stdout\<close>
  formatVideoInfo :: "string \<Rightarrow> string \<Rightarrow> string + string"

text \<open>
  \<open>formatVideoInfo base stdout\<close> stands for lines 406 to 443 of the server: parsing
  ffprobe's JSON and laying it out as text (\<open>Inl\<close> the message of an exception thrown
  there, such as the \<^verbatim>\<open>SyntaxError\<close> of \<^verbatim>\<open>JSON.parse\<close>). It formats floating-point
  numbers and starts nothing, so the model takes its result as given.
\<close>

text \<open>
  Node's \<^verbatim>\<open>path\<close> module is a library of the platform (POSIX or Windows rules), not
  code of the repository: the operations take it as a parameter.
\<close>

record path_ops =
  resolve :: "string \<Rightarrow> string"               \<comment> \<open>\<^verbatim>\<open>path.resolve(p)\<close>, against the working directory\<close>
  basename :: "string \<Rightarrow> string"              \<comment> \<open>\<^verbatim>\<open>path.basename(p)\<close>\<close>
  basename_ext :: "string \<Rightarrow> string \<Rightarrow> string" \<comment> \<open>\<^verbatim>\<open>path.basename(p, ext)\<close>\<close>
  extname :: "string \<Rightarrow> string"               \<comment> \<open>\<^verbatim>\<open>path.extname(p)\<close>\<close>
  join :: "string list \<Rightarrow> string"             \<comment> \<open>\<^verbatim>\<open>path.join(...)\<close>\<close>
  parse_name :: "string \<Rightarrow> string"            \<comment> \<open>\<^verbatim>\<open>path.parse(p).name\<close>\<close>

subsection \<open>JavaScript values and strings\<close>

text \<open>A string is truthy unless it is empty; \<^verbatim>\<open>undefined\<close> is falsy.\<close>

fun truthy :: "string option \<Rightarrow> bool" where
  "truthy None = False"
| "truthy (Some s) = (s \<noteq> [])"

text \<open>\<^verbatim>\<open>a || b\<close> on such values.\<close>

definition js_or :: "string option \<Rightarrow> string option \<Rightarrow> string option" where
  "js_or a b = (if truthy a then a else b)"

text \<open>A non-negative integer in a template literal: its decimal digits.\<close>

definition digit :: "nat \<Rightarrow> char" where
  "digit d = ''0123456789'' ! d"

fun show_nat :: "nat \<Rightarrow> string" where
  "show_nat n = (if n < 10 then [digit n] else show_nat (n div 10) @ [digit (n mod 10)])"

declare show_nat.simps [simp del]

text \<open>\<^verbatim>\<open>xs.join(sep)\<close> on an array of strings.\<close>

fun join_with :: "string \<Rightarrow> string list \<Rightarrow> string" where
  "join_with sep [] = []"
| "join_with sep [x] = x"
| "join_with sep (x # y # ys) = x @ sep @ join_with sep (y # ys)"

section \<open>The MCP server\<close>

subsection \<open>The table of resolutions (lines 20 to 25)\<close>

definition RESOLUTIONS :: "(string \<times> nat \<times> nat) list" where
  "RESOLUTIONS =
    [(''360p'', 640, 360),
     (''480p'', 854, 480),
     (''720p'', 1280, 720),
     (''1080p'', 1920, 1080)]"

text \<open>\<^verbatim>\<open>Object.keys(RESOLUTIONS)\<close>, in insertion order.\<close>

definition RESOLUTION_keys :: "string list" where
  "RESOLUTION_keys = map fst RESOLUTIONS"

subsection \<open>The permission gate (lines 30 to 56)\<close>

text \<open>
  The result is \<open>None\<close> when the promise never resolves, which happens exactly when the
  notifier never calls back. The callback tests \<^verbatim>\<open>if (err)\<close>: only a truthy \<^verbatim>\<open>err\<close>
  counts as an error of the notifier.
\<close>

definition askPermission :: "world \<Rightarrow> event list \<Rightarrow> string \<Rightarrow> bool option \<times> event list" where
  "askPermission w h action =
    (if env w ''DISABLE_NOTIFICATIONS'' = Some ''true''
     then (Some True, [ConsoleLog (''Auto-allowing action (notifications disabled): '' @ action)])
     else (case notify w h action of
             None \<Rightarrow> (None, [Notify action])
           | Some r \<Rightarrow>
               (if truthy (nr_err r)
                then (Some False,
                      [Notify action,
                       ConsoleError (''Error showing notification: ''
                         @ (case nr_err r of Some e \<Rightarrow> e | None \<Rightarrow> []))])
                else (let buttonPressed =
                            js_or (case nr_metadata r of None \<Rightarrow> None | Some a \<Rightarrow> a) (nr_response r)
                      in (Some (buttonPressed \<noteq> Some ''Deny''), [Notify action])))))"

subsection \<open>The default output directory (lines 61 to 70)\<close>

definition ensureDirectoriesExist :: "world \<Rightarrow> path_ops \<Rightarrow> event list \<Rightarrow> string \<times> event list" where
  "ensureDirectoriesExist w P h =
    (let outputDir = join P [tmpdir w, ''ffmpeg-output'']
     in case fs_mkdir w h outputDir of
          None \<Rightarrow> (outputDir, [FsMkdir outputDir])
        | Some e \<Rightarrow> (tmpdir w, [FsMkdir outputDir, ConsoleError (''Error creating output directory: '' @ e)]))"

subsection \<open>Tool results\<close>

text \<open>
  A tool returns \<^verbatim>\<open>{ isError?, content: [{ type: "text", text }] }\<close>; \<open>content\<close> is the
  text of the single content item, and an absent \<^verbatim>\<open>isError\<close> is \<open>False\<close>.
\<close>

record tool_result =
  isError :: bool
  content :: string

definition error_result :: "string \<Rightarrow> tool_result" where
  "error_result t = \<lparr>isError = True, content = t\<rparr>"

definition ok_result :: "string \<Rightarrow> tool_result" where
  "ok_result t = \<lparr>isError = False, content = t\<rparr>"

definition execs :: "event list \<Rightarrow> string list" where
  "execs tr = concat (map (\<lambda>e. case e of Exec c \<Rightarrow> [c] | _ \<Rightarrow> []) tr)"

definition notifications :: "event list \<Rightarrow> string list" where
  "notifications tr = concat (map (\<lambda>e. case e of Notify m \<Rightarrow> [m] | _ \<Rightarrow> []) tr)"

subsection \<open>Argument checks shared by resize-video and extract-audio\<close>

text \<open>
  Lines 115 to 145 of resize-video and lines 251 to 281 of extract-audio are the same
  code. \<open>Inl\<close> is the early return of an error result; \<open>Inr\<close> carries the resolved
  input path and the output directory on to the rest of the handler. An \<^verbatim>\<open>outputDir\<close>
  that is absent or the empty string is falsy and selects the default directory.
\<close>

definition video_not_found :: "string \<Rightarrow> tool_result" where
  "video_not_found absVideoPath = error_result (''Error: Video file not found at '' @ absVideoPath)"

definition dir_not_writable :: "string \<Rightarrow> tool_result" where
  "dir_not_writable outputDirectory =
    error_result (''Error: Output directory '' @ outputDirectory @ '' does not exist or is not writable'')"

definition permission_denied :: tool_result where
  "permission_denied = error_result ''Permission denied by user''"

definition output_directory :: "world \<Rightarrow> path_ops \<Rightarrow> event list \<Rightarrow> string option \<Rightarrow> string \<times> event list" where
  "output_directory w P h outputDir =
    (case outputDir of
       None \<Rightarrow> ensureDirectoriesExist w P h
     | Some d \<Rightarrow> if d \<noteq> [] then (resolve P d, []) else ensureDirectoriesExist w P h)"

definition check_arguments ::
  "world \<Rightarrow> path_ops \<Rightarrow> event list \<Rightarrow> string \<Rightarrow> string option
    \<Rightarrow> (tool_result \<times> event list) + (string \<times> string \<times> event list)" where
  "check_arguments w P h videoPath outputDir =
    (let absVideoPath = resolve P videoPath
     in if \<not> fs_access w h absVideoPath
        then Inl (video_not_found absVideoPath, [FsAccess absVideoPath])
        else (case output_directory w P (h @ [FsAccess absVideoPath]) outputDir of
                (outputDirectory, ev) \<Rightarrow>
                  (let tr = FsAccess absVideoPath # ev
                   in if \<not> fs_access_w w (h @ tr) outputDirectory
                      then Inl (dir_not_writable outputDirectory, tr @ [FsAccessW outputDirectory])
                      else Inr (absVideoPath, outputDirectory, tr @ [FsAccessW outputDirectory]))))"

subsection \<open>resize-video (lines 105 to 238)\<close>

record resize_result =
  rr_resolution :: string
  rr_outputPath :: string
  rr_success :: bool
  rr_error :: "string option"

definition resize_permission_message :: "path_ops \<Rightarrow> string \<Rightarrow> string list \<Rightarrow> string" where
  "resize_permission_message P absVideoPath resolutions =
    ''Resize video '' @ basename P absVideoPath @ '' to '' @ join_with '', '' resolutions"

definition resize_command :: "string \<Rightarrow> nat \<Rightarrow> nat \<Rightarrow> string \<Rightarrow> string" where
  \<open>resize_command absVideoPath width height outputPath =
    ''ffmpeg -i "'' @ absVideoPath @ ''" -vf "scale='' @ show_nat width @ '':'' @ show_nat height
      @ ''" -c:v libx264 -crf 23 -preset medium -c:a aac -b:a 128k "'' @ outputPath @ ''"''\<close>

definition resize_outputPath :: "path_ops \<Rightarrow> string \<Rightarrow> string \<Rightarrow> string \<Rightarrow> string" where
  "resize_outputPath P absVideoPath outputDirectory resolution =
    (let videoFilename = basename_ext P absVideoPath (extname P absVideoPath);
         outputFilename = videoFilename @ ''_'' @ resolution @ extname P absVideoPath
     in join P [outputDirectory, outputFilename])"

text \<open>
  The message of the \<^verbatim>\<open>TypeError\<close> thrown when \<^verbatim>\<open>RESOLUTIONS[resolution]\<close> is
  undefined and is destructured (line 179). The schema of the tool admits only the four
  keys of the table, so the handler never gets there through the server.
\<close>

definition destructure_error :: string where
  "destructure_error = ''Cannot destructure property 'width' of 'RESOLUTIONS[resolution]' as it is undefined.''"

text \<open>
  The loop of lines 178 to 205, one iteration per list element. The results of the
  remaining iterations come back from the recursive call, so consing the result of this
  iteration in front gives the array that the source builds with \<^verbatim>\<open>push\<close>.
\<close>

fun resize_loop ::
  "world \<Rightarrow> path_ops \<Rightarrow> event list \<Rightarrow> string \<Rightarrow> string \<Rightarrow> string list
    \<Rightarrow> (string + resize_result list) \<times> event list" where
  "resize_loop w P h absVideoPath outputDirectory [] = (Inr [], [])"
| "resize_loop w P h absVideoPath outputDirectory (resolution # rest) =
    (case map_of RESOLUTIONS resolution of
       None \<Rightarrow> (Inl destructure_error, [])
     | Some (width, height) \<Rightarrow>
         (let outputPath = resize_outputPath P absVideoPath outputDirectory resolution;
              command = resize_command absVideoPath width height outputPath;
              result = (case exec w h command of
                          Inr stdout \<Rightarrow>
                            \<lparr>rr_resolution = resolution, rr_outputPath = outputPath,
                             rr_success = True, rr_error = None\<rparr>
                        | Inl errorMessage \<Rightarrow>
                            \<lparr>rr_resolution = resolution, rr_outputPath = outputPath,
                             rr_success = False, rr_error = Some errorMessage\<rparr>)
          in case resize_loop w P (h @ [Exec command]) absVideoPath outputDirectory rest of
               (Inl e, tr) \<Rightarrow> (Inl e, Exec command # tr)
             | (Inr results, tr) \<Rightarrow> (Inr (result # results), Exec command # tr)))"

definition nl :: string where
  "nl = [CHR 0x0A]"

text \<open>The check mark U+2705 and the cross mark U+274C, as their UTF-8 bytes.\<close>

definition check_mark :: string where
  "check_mark = [CHR 0xE2, CHR 0x9C, CHR 0x85]"

definition cross_mark :: string where
  "cross_mark = [CHR 0xE2, CHR 0x9D, CHR 0x8C]"

definition result_line :: "resize_result \<Rightarrow> string" where
  "result_line result =
    (if rr_success result
     then check_mark @ '' '' @ rr_resolution result @ '': '' @ rr_outputPath result @ nl
     else cross_mark @ '' '' @ rr_resolution result @ '': Failed - ''
            @ (case rr_error result of Some e \<Rightarrow> e | None \<Rightarrow> ''undefined'') @ nl)"

definition successCount :: "resize_result list \<Rightarrow> nat" where
  "successCount results = length (filter rr_success results)"

definition failCount :: "resize_result list \<Rightarrow> nat" where
  "failCount results = length results - successCount results"

definition report_header :: "resize_result list \<Rightarrow> string" where
  "report_header results =
    ''Processed '' @ show_nat (length results) @ '' resolutions ('' @ show_nat (successCount results)
      @ '' successful, '' @ show_nat (failCount results) @ '' failed)'' @ nl @ nl"

definition resize_report :: "resize_result list \<Rightarrow> string" where
  "resize_report results = report_header results @ concat (map result_line results)"

definition resize_video ::
  "world \<Rightarrow> path_ops \<Rightarrow> event list \<Rightarrow> string \<Rightarrow> string list \<Rightarrow> string option
    \<Rightarrow> tool_result option \<times> event list" where
  "resize_video w P h videoPath resolutions outputDir =
    (case check_arguments w P h videoPath outputDir of
       Inl (r, tr) \<Rightarrow> (Some r, tr)
     | Inr (absVideoPath, outputDirectory, tr) \<Rightarrow>
         (case askPermission w (h @ tr) (resize_permission_message P absVideoPath resolutions) of
            (None, ev) \<Rightarrow> (None, tr @ ev)
          | (Some permitted, ev) \<Rightarrow>
              if \<not> permitted then (Some permission_denied, tr @ ev)
              else (case resize_loop w P (h @ tr @ ev) absVideoPath outputDirectory resolutions of
                      (Inl e, ex) \<Rightarrow> (Some (error_result (''Error resizing video: '' @ e)), tr @ ev @ ex)
                    | (Inr results, ex) \<Rightarrow> (Some (ok_result (resize_report results)), tr @ ev @ ex))))"

subsection \<open>extract-audio (lines 241 to 357)\<close>

text \<open>The switch of lines 305 to 321, on the format as a string.\<close>

definition audioCodec :: "string \<Rightarrow> string" where
  "audioCodec format =
    (if format = ''mp3'' then ''libmp3lame''
     else if format = ''aac'' then ''aac''
     else if format = ''wav'' then ''pcm_s16le''
     else if format = ''ogg'' then ''libvorbis''
     else ''libmp3lame'')"

text \<open>The formats that the schema of the tool and the HTTP controller accept.\<close>

definition validFormats :: "string list" where
  "validFormats = [''mp3'', ''aac'', ''wav'', ''ogg'']"

definition extract_permission_message :: "path_ops \<Rightarrow> string \<Rightarrow> string \<Rightarrow> string" where
  "extract_permission_message P absVideoPath format =
    ''Extract '' @ format @ '' audio from video '' @ basename P absVideoPath"

definition extract_outputPath :: "path_ops \<Rightarrow> string \<Rightarrow> string \<Rightarrow> string \<Rightarrow> string" where
  "extract_outputPath P absVideoPath outputDirectory format =
    (let videoFilename = basename_ext P absVideoPath (extname P absVideoPath);
         outputFilename = videoFilename @ ''.'' @ format
     in join P [outputDirectory, outputFilename])"

definition extract_command :: "string \<Rightarrow> string \<Rightarrow> string \<Rightarrow> string" where
  \<open>extract_command absVideoPath codec outputPath =
    ''ffmpeg -i "'' @ absVideoPath @ ''" -vn -acodec '' @ codec @ '' "'' @ outputPath @ ''"''\<close>

definition extract_audio ::
  "world \<Rightarrow> path_ops \<Rightarrow> event list \<Rightarrow> string \<Rightarrow> string \<Rightarrow> string option
    \<Rightarrow> tool_result option \<times> event list" where
  "extract_audio w P h videoPath format outputDir =
    (case check_arguments w P h videoPath outputDir of
       Inl (r, tr) \<Rightarrow> (Some r, tr)
     | Inr (absVideoPath, outputDirectory, tr) \<Rightarrow>
         (case askPermission w (h @ tr) (extract_permission_message P absVideoPath format) of
            (None, ev) \<Rightarrow> (None, tr @ ev)
          | (Some permitted, ev) \<Rightarrow>
              if \<not> permitted then (Some permission_denied, tr @ ev)
              else (let outputPath = extract_outputPath P absVideoPath outputDirectory format;
                        command = extract_command absVideoPath (audioCodec format) outputPath
                    in case exec w (h @ tr @ ev) command of
                         Inr stdout \<Rightarrow>
                           (Some (ok_result (''Successfully extracted audio to: '' @ outputPath)),
                            tr @ ev @ [Exec command])
                       | Inl errorMessage \<Rightarrow>
                           (Some (error_result (''Error extracting audio: '' @ errorMessage)),
                            tr @ ev @ [Exec command]))))"

subsection \<open>get-video-info (lines 360 to 462)\<close>

definition info_permission_message :: "path_ops \<Rightarrow> string \<Rightarrow> string" where
  "info_permission_message P absVideoPath = ''Analyze video file '' @ basename P absVideoPath"

definition info_command :: "string \<Rightarrow> string" where
  \<open>info_command absVideoPath =
    ''ffprobe -v quiet -print_format json -show_format -show_streams "'' @ absVideoPath @ ''"''\<close>

definition get_video_info ::
  "world \<Rightarrow> path_ops \<Rightarrow> event list \<Rightarrow> string \<Rightarrow> tool_result option \<times> event list" where
  "get_video_info w P h videoPath =
    (let absVideoPath = resolve P videoPath
     in if \<not> fs_access w h absVideoPath
        then (Some (video_not_found absVideoPath), [FsAccess absVideoPath])
        else (let tr = [FsAccess absVideoPath]
              in case askPermission w (h @ tr) (info_permission_message P absVideoPath) of
                   (None, ev) \<Rightarrow> (None, tr @ ev)
                 | (Some permitted, ev) \<Rightarrow>
                     if \<not> permitted then (Some permission_denied, tr @ ev)
                     else (let command = info_command absVideoPath
                           in case exec w (h @ tr @ ev) command of
                                Inl errorMessage \<Rightarrow>
                                  (Some (error_result (''Error getting video information: '' @ errorMessage)),
                                   tr @ ev @ [Exec command])
                              | Inr stdout \<Rightarrow>
                                  (case formatVideoInfo w (basename P absVideoPath) stdout of
                                     Inl errorMessage \<Rightarrow>
                                       (Some (error_result (''Error getting video information: '' @ errorMessage)),
                                        tr @ ev @ [Exec command])
                                   | Inr formattedInfo \<Rightarrow>
                                       (Some (ok_result formattedInfo), tr @ ev @ [Exec command])))))"

subsection \<open>The registered tools\<close>

text \<open>
  The four \<^verbatim>\<open>server.tool\<close> registrations (lines 73, 105, 241 and 360), by name, with
  the operation each handler performs. The handler of get-ffmpeg-version runs
  \<^verbatim>\<open>ffmpeg -version\<close> without asking; nothing below is about it, so only its
  registration appears here.
\<close>

datatype operation = FfmpegVersion | ResizeVideo | ExtractAudio | MediaInfo

definition mcp_tools :: "(string \<times> operation) list" where
  "mcp_tools =
    [(''get-ffmpeg-version'', FfmpegVersion),
     (''resize-video'', ResizeVideo),
     (''extract-audio'', ExtractAudio),
     (''get-video-info'', MediaInfo)]"

text \<open>The operation behind a tool name, if the server registers that name.\<close>

definition tool_of :: "string \<Rightarrow> operation option" where
  "tool_of name = map_of mcp_tools name"

section \<open>The HTTP upload API\<close>

subsection \<open>The routes of \<^verbatim>\<open>server.js\<close>\<close>

text \<open>
  Both versions of \<^verbatim>\<open>server.js\<close> register the same two routes
  (\<^verbatim>\<open>app.post('/api/resize', ...)\<close> and \<^verbatim>\<open>app.post('/api/extract-audio', ...)\<close>);
  everything else they mount is middleware (CORS, logging, static files, the error
  handler).
\<close>

definition http_routes :: "(string \<times> string \<times> operation) list" where
  "http_routes =
    [(''POST'', ''/api/resize'', ResizeVideo),
     (''POST'', ''/api/extract-audio'', ExtractAudio)]"

text \<open>
  The operation that a request with this method and path is routed to, if any. The
  lookup is by the path as registered; Express also accepts the same two paths in another
  letter case or with a trailing slash, which adds no further operation.
\<close>

definition route_of :: "string \<Rightarrow> string \<Rightarrow> operation option" where
  "route_of method path = map_of (map (\<lambda>(m, p, operation). ((m, p), operation)) http_routes) (method, path)"

subsection \<open>Requests, jobs and responses\<close>

text \<open>\<^verbatim>\<open>req.file\<close> as multer leaves it, and the two form fields the controller reads.\<close>

record upload =
  up_path :: string
  up_filename :: string

record http_request =
  req_file :: "upload option"
  body_resolutions :: "string option"
  body_format :: "string option"

text \<open>What \<^verbatim>\<open>JSON.parse\<close> can return. The text of a number is kept as it is.\<close>

datatype json = JNull | JBool bool | JNum string | JStr string | JArr "json list" | JObj "(string \<times> json) list"

text \<open>A fluent-ffmpeg command, as the controller configures it before \<^verbatim>\<open>run()\<close>.\<close>

record ffmpeg_job =
  job_input :: string
  job_size :: "string option"
  job_noVideo :: bool
  job_audioCodec :: "string option"
  job_output :: string

text \<open>
  How a started job settles: its \<^verbatim>\<open>end\<close> event or its \<^verbatim>\<open>error\<close> event (with the
  message of the error), at some time; or never.
\<close>

datatype job_outcome = Ended nat | Failed nat string | Pending

record http_world =
  dirname :: string                                \<comment> \<open>\<^verbatim>\<open>__dirname\<close> of the controller\<close>
  json_parse :: "string \<Rightarrow> string + json"           \<comment> \<open>\<open>Inl\<close> the message of the \<^verbatim>\<open>SyntaxError\<close>\<close>
  run_job :: "ffmpeg_job \<Rightarrow> job_outcome"

record resized_file =
  rf_resolution :: string
  rf_filename :: string
  rf_path :: string

record audio_file =
  af_format :: string
  af_filename :: string
  af_path :: string

datatype http_body =
    ErrorBody string                          \<comment> \<open>\<^verbatim>\<open>{ error }\<close>\<close>
  | ErrorOptions string "string list"         \<comment> \<open>\<^verbatim>\<open>{ error, validOptions }\<close>\<close>
  | ResizeBody string "resized_file list"     \<comment> \<open>\<^verbatim>\<open>{ message, files }\<close>\<close>
  | AudioBody string audio_file               \<comment> \<open>\<^verbatim>\<open>{ message, file }\<close>\<close>

record http_response =
  status :: nat
  body :: http_body

definition http_outputDir :: "http_world \<Rightarrow> path_ops \<Rightarrow> string" where
  "http_outputDir hw P = join P [dirname hw, ''..'', ''output'']"

subsection \<open>\<^verbatim>\<open>exports.resizeVideo\<close> (lines 494 to 550)\<close>

text \<open>
  \<^verbatim>\<open>Array.prototype.includes\<close> compares a parsed element with the keys, which are
  strings: an element that is not a string never passes the filter.
\<close>

fun json_strings :: "json list \<Rightarrow> string list" where
  "json_strings [] = []"
| "json_strings (JStr s # vs) = s # json_strings vs"
| "json_strings (v # vs) = json_strings vs"

definition validResolutions :: "string list \<Rightarrow> string list" where
  "validResolutions resolutions = filter (\<lambda>res. res \<in> set RESOLUTION_keys) resolutions"

text \<open>
  The requested resolutions: the parsed field, or all keys when the field is falsy
  (absent or empty). \<open>Inl\<close> is the message of an exception: the \<^verbatim>\<open>SyntaxError\<close> of
  \<^verbatim>\<open>JSON.parse\<close>, or the \<^verbatim>\<open>TypeError\<close> of calling \<^verbatim>\<open>.filter\<close> on a parsed
  value that is not an array (reading a property of \<^verbatim>\<open>null\<close> has a message of its
  own).
\<close>

definition filter_not_function :: string where
  "filter_not_function = ''resolutions.filter is not a function''"

definition filter_of_null :: string where
  "filter_of_null = ''Cannot read properties of null (reading 'filter')''"

definition requested_resolutions :: "http_world \<Rightarrow> string option \<Rightarrow> string + string list" where
  "requested_resolutions hw field =
    (case field of
       None \<Rightarrow> Inr RESOLUTION_keys
     | Some t \<Rightarrow>
         if t = [] then Inr RESOLUTION_keys
         else (case json_parse hw t of
                 Inl syntaxError \<Rightarrow> Inl syntaxError
               | Inr (JArr vs) \<Rightarrow> Inr (json_strings vs)
               | Inr JNull \<Rightarrow> Inl filter_of_null
               | Inr _ \<Rightarrow> Inl filter_not_function))"

text \<open>
  \<^verbatim>\<open>RESOLUTIONS[resolution]\<close> for a resolution that passed the filter, hence a key of
  the table; the other branch is never taken.
\<close>

definition the_size :: "string \<Rightarrow> nat \<times> nat" where
  "the_size resolution = (case map_of RESOLUTIONS resolution of Some d \<Rightarrow> d | None \<Rightarrow> (0, 0))"

definition http_resize_filename :: "string \<Rightarrow> string \<Rightarrow> string" where
  "http_resize_filename filename resolution = filename @ ''_'' @ resolution @ ''.mp4''"

definition resize_job :: "http_world \<Rightarrow> path_ops \<Rightarrow> string \<Rightarrow> string \<Rightarrow> string \<Rightarrow> ffmpeg_job" where
  "resize_job hw P videoPath filename resolution =
    (case the_size resolution of
       (width, height) \<Rightarrow>
         \<lparr>job_input = videoPath,
          job_size = Some (show_nat width @ ''x'' @ show_nat height),
          job_noVideo = False,
          job_audioCodec = None,
          job_output = join P [http_outputDir hw P, http_resize_filename filename resolution]\<rparr>)"

definition resized :: "string \<Rightarrow> string \<Rightarrow> resized_file" where
  "resized filename resolution =
    \<lparr>rf_resolution = resolution,
     rf_filename = http_resize_filename filename resolution,
     rf_path = ''/output/'' @ http_resize_filename filename resolution\<rparr>"

text \<open>
  \<^verbatim>\<open>Promise.all\<close> over the jobs, all started before any is awaited. It rejects with the
  error of the job that fails first and fulfils once every job has ended; with a job
  that never settles and none that fails, it stays pending. \<open>outputFiles\<close> is filled
  by the \<^verbatim>\<open>end\<close> handlers, so it is in the order in which the jobs ended.
\<close>

definition failures :: "(string \<times> job_outcome) list \<Rightarrow> (nat \<times> string) list" where
  "failures js = concat (map (\<lambda>(r, out). case out of Failed t m \<Rightarrow> [(t, m)] | _ \<Rightarrow> []) js)"

definition endings :: "(string \<times> job_outcome) list \<Rightarrow> (nat \<times> string) list" where
  "endings js = concat (map (\<lambda>(r, out). case out of Ended t \<Rightarrow> [(t, r)] | _ \<Rightarrow> []) js)"

definition error_message :: "string \<Rightarrow> string \<Rightarrow> string" where
  "error_message m fallback = (if m \<noteq> [] then m else fallback)"

definition resizeVideo ::
  "http_world \<Rightarrow> path_ops \<Rightarrow> http_request \<Rightarrow> http_response option \<times> ffmpeg_job list" where
  "resizeVideo hw P req =
    (case req_file req of
       None \<Rightarrow> (Some \<lparr>status = 400, body = ErrorBody ''No video file uploaded''\<rparr>, [])
     | Some file \<Rightarrow>
         (let videoPath = up_path file;
              filename = parse_name P (up_filename file)
          in case requested_resolutions hw (body_resolutions req) of
               Inl m \<Rightarrow> (Some \<lparr>status = 500, body = ErrorBody (error_message m ''Error processing video'')\<rparr>, [])
             | Inr resolutions \<Rightarrow>
                 (let valid = validResolutions resolutions
                  in if length valid = 0
                     then (Some \<lparr>status = 400,
                                  body = ErrorOptions ''No valid resolutions specified'' RESOLUTION_keys\<rparr>, [])
                     else (let jobs = map (resize_job hw P videoPath filename) valid;
                               outcomes = zip valid (map (run_job hw) jobs)
                           in case sort_key fst (failures outcomes) of
                                (t, m) # _ \<Rightarrow>
                                  (Some \<lparr>status = 500,
                                          body = ErrorBody (error_message m ''Error processing video'')\<rparr>, jobs)
                              | [] \<Rightarrow>
                                  if length (endings outcomes) = length valid
                                  then (Some \<lparr>status = 200,
                                               body = ResizeBody ''Video processing completed''
                                                 (map (\<lambda>(t, r). resized filename r)
                                                   (sort_key fst (endings outcomes)))\<rparr>, jobs)
                                  else (None, jobs)))))"

subsection \<open>\<^verbatim>\<open>exports.extractAudio\<close> (lines 555 to 603)\<close>

text \<open>The conditional expression passed to \<^verbatim>\<open>.audioCodec(...)\<close>.\<close>

definition http_audioCodec :: "string \<Rightarrow> string" where
  "http_audioCodec format =
    (if format = ''mp3'' then ''libmp3lame'' else if format = ''aac'' then ''aac'' else format)"

text \<open>
  The handler returns the promise of the job without awaiting it, so its own
  \<^verbatim>\<open>catch\<close> does not see a failing job: the controller then sends no response.
\<close>

definition extractAudio ::
  "http_world \<Rightarrow> path_ops \<Rightarrow> http_request \<Rightarrow> http_response option \<times> ffmpeg_job list" where
  "extractAudio hw P req =
    (case req_file req of
       None \<Rightarrow> (Some \<lparr>status = 400, body = ErrorBody ''No video file uploaded''\<rparr>, [])
     | Some file \<Rightarrow>
         (let videoPath = up_path file;
              filename = parse_name P (up_filename file);
              format = (case js_or (body_format req) (Some ''mp3'') of Some f \<Rightarrow> f | None \<Rightarrow> ''mp3'')
          in if format \<notin> set validFormats
             then (Some \<lparr>status = 400, body = ErrorOptions ''Invalid audio format'' validFormats\<rparr>, [])
             else (let outputFilename = filename @ ''.'' @ format;
                       outputPath = join P [http_outputDir hw P, outputFilename];
                       job = \<lparr>job_input = videoPath, job_size = None, job_noVideo = True,
                              job_audioCodec = Some (http_audioCodec format), job_output = outputPath\<rparr>
                   in case run_job hw job of
                        Ended t \<Rightarrow>
                          (Some \<lparr>status = 200,
                                  body = AudioBody ''Audio extraction completed''
                                    \<lparr>af_format = format, af_filename = outputFilename,
                                     af_path = ''/output/'' @ outputFilename\<rparr>\<rparr>, [job])
                      | _ \<Rightarrow> (None, [job]))))"

section \<open>A POSIX instance of the path operations\<close>

text \<open>
  Node's \<^verbatim>\<open>path.posix\<close> on paths whose segments are separated by single slashes and
  hold no \<^verbatim>\<open>.\<close> or \<^verbatim>\<open>..\<close> segment to resolve: \<^verbatim>\<open>resolve\<close> puts the working
  directory in front of a relative path, \<^verbatim>\<open>join\<close> puts slashes between its non-empty
  arguments. The base name is the last non-empty segment; the extension starts at the
  last dot of the base name, unless that dot is its first character or the base name
  is \<^verbatim>\<open>..\<close>.
\<close>

fun split_on :: "char \<Rightarrow> string \<Rightarrow> string list" where
  "split_on c [] = [[]]"
| "split_on c (x # xs) =
    (if x = c then [] # split_on c xs
     else (case split_on c xs of s # ss \<Rightarrow> (x # s) # ss | [] \<Rightarrow> [[x]]))"

definition last_segment :: "string \<Rightarrow> string" where
  "last_segment p = (case rev (filter (\<lambda>s. s \<noteq> []) (split_on CHR ''/'' p)) of [] \<Rightarrow> [] | s # _ \<Rightarrow> s)"

definition ext_of :: "string \<Rightarrow> string" where
  "ext_of b =
    (if CHR ''.'' \<notin> set b \<or> b = ''..'' then []
     else (let e = rev (takeWhile (\<lambda>c. c \<noteq> CHR ''.'') (rev b))
           in if Suc (length e) = length b then [] else CHR ''.'' # e))"

definition posix_extname :: "string \<Rightarrow> string" where
  "posix_extname p = ext_of (last_segment p)"

definition posix_basename_ext :: "string \<Rightarrow> string \<Rightarrow> string" where
  "posix_basename_ext p ext =
    (let b = last_segment p
     in if ext = p \<and> ext \<noteq> [] then []
        else if ext \<noteq> [] \<and> length ext < length b \<and> drop (length b - length ext) b = ext
        then take (length b - length ext) b
        else b)"

definition posix_parse_name :: "string \<Rightarrow> string" where
  "posix_parse_name p = (let b = last_segment p in take (length b - length (ext_of b)) b)"

definition posix_resolve :: "string \<Rightarrow> string \<Rightarrow> string" where
  "posix_resolve cwd p = (case p of [] \<Rightarrow> cwd | c # cs \<Rightarrow> if c = CHR ''/'' then p else cwd @ ''/'' @ p)"

definition posix :: "string \<Rightarrow> path_ops" where
  "posix cwd =
    \<lparr>resolve = posix_resolve cwd,
     basename = last_segment,
     basename_ext = posix_basename_ext,
     extname = posix_extname,
     join = (\<lambda>ps. join_with ''/'' (filter (\<lambda>s. s \<noteq> []) ps)),
     parse_name = posix_parse_name\<rparr>"

section \<open>The commands and the permission gate, as the specification words them\<close>

text \<open>
  The fixed table of the specification: 360p is 640x360, 480p is 854x480, 720p is
  1280x720 and 1080p is 1920x1080, as the argument of the \<^verbatim>\<open>scale\<close> filter.
\<close>

definition spec_scale :: "string \<Rightarrow> string" where
  "spec_scale r =
    (if r = ''360p'' then ''640:360''
     else if r = ''480p'' then ''854:480''
     else if r = ''720p'' then ''1280:720''
     else ''1920:1080'')"

text \<open>
  The two command lines of the specification, with the input and output paths in double
  quotes as the server writes them.
\<close>

definition spec_resize_command :: "string \<Rightarrow> string \<Rightarrow> string \<Rightarrow> string" where
  \<open>spec_resize_command input r output =
    ''ffmpeg -i "'' @ input @ ''" -vf "scale='' @ spec_scale r
      @ ''" -c:v libx264 -crf 23 -preset medium -c:a aac -b:a 128k "'' @ output @ ''"''\<close>

definition spec_extract_command :: "string \<Rightarrow> string \<Rightarrow> string \<Rightarrow> string" where
  \<open>spec_extract_command input codec output =
    ''ffmpeg -i "'' @ input @ ''" -vn -acodec '' @ codec @ '' "'' @ output @ ''"''\<close>

definition commands_for :: "path_ops \<Rightarrow> string \<Rightarrow> string \<Rightarrow> string list \<Rightarrow> string list" where
  "commands_for P a d rs = map (\<lambda>r. spec_resize_command a r (resize_outputPath P a d r)) rs"

text \<open>
  A trace \<open>tr\<close> passed the permission gate for \<open>message\<close> right after the events
  \<open>pre\<close> when it is \<open>pre\<close>, then the events of an \<open>askPermission\<close> that was asked
  at that point and returned true, then the rest, with no command run before the
  permission gate had answered.
\<close>

definition gate_passed :: "world \<Rightarrow> event list \<Rightarrow> string \<Rightarrow> event list \<Rightarrow> event list \<Rightarrow> bool" where
  "gate_passed w h message pre tr =
    (\<exists>ev post. tr = pre @ ev @ post \<and> execs (pre @ ev) = []
       \<and> askPermission w (h @ pre) message = (Some True, ev))"

text \<open>
  The report of resize-video as the specification words it. One row per requested
  resolution, in request order: the resolution, its output path and what its own ffmpeg
  run returned, the runs following one another.
\<close>

type_synonym report_row = "string \<times> string \<times> (string + string)"

fun report_rows ::
  "world \<Rightarrow> path_ops \<Rightarrow> event list \<Rightarrow> string \<Rightarrow> string \<Rightarrow> string list \<Rightarrow> report_row list" where
  "report_rows w P h a d [] = []"
| "report_rows w P h a d (r # rs) =
    (let p = resize_outputPath P a d r; c = spec_resize_command a r p
     in (r, p, exec w h c) # report_rows w P (h @ [Exec c]) a d rs)"

definition succeeded :: "report_row \<Rightarrow> bool" where
  "succeeded row = (case row of (r, p, outcome) \<Rightarrow> (case outcome of Inr out \<Rightarrow> True | Inl e \<Rightarrow> False))"

text \<open>
  An entry is the check mark, the resolution and the output path, or the cross mark, the
  resolution and the error message of the run; each entry ends with a line feed. The
  marks are the UTF-8 bytes of U+2705 and U+274C.
\<close>

definition spec_entry :: "report_row \<Rightarrow> string" where
  "spec_entry row =
    (case row of
       (r, p, outcome) \<Rightarrow>
         (case outcome of
            Inr out \<Rightarrow> [CHR 0xE2, CHR 0x9C, CHR 0x85] @ '' '' @ r @ '': '' @ p @ [CHR 0x0A]
          | Inl e \<Rightarrow> [CHR 0xE2, CHR 0x9D, CHR 0x8C] @ '' '' @ r @ '': Failed - '' @ e @ [CHR 0x0A]))"

definition spec_report :: "report_row list \<Rightarrow> string" where
  "spec_report rows =
    ''Processed '' @ show_nat (length rows) @ '' resolutions (''
      @ show_nat (length (filter succeeded rows)) @ '' successful, ''
      @ show_nat (length (filter (\<lambda>row. \<not> succeeded row) rows)) @ '' failed)''
      @ [CHR 0x0A, CHR 0x0A] @ concat (map spec_entry rows)"

section \<open>Sample worlds\<close>

text \<open>
  Replies of the notifier: the user presses Allow, the user presses Deny, the
  notification times out unanswered, and the notifier fails to show it.
\<close>

definition allow_reply :: notify_reply where
  "allow_reply = \<lparr>nr_err = None, nr_response = Some ''activate'', nr_metadata = Some (Some ''Allow'')\<rparr>"

definition deny_reply :: notify_reply where
  "deny_reply = \<lparr>nr_err = None, nr_response = Some ''closed'', nr_metadata = Some (Some ''Deny'')\<rparr>"

definition timeout_reply :: notify_reply where
  "timeout_reply = \<lparr>nr_err = None, nr_response = Some ''timeout'', nr_metadata = Some None\<rparr>"

definition failed_reply :: notify_reply where
  "failed_reply = \<lparr>nr_err = Some ''spawn ENOENT'', nr_response = None, nr_metadata = None\<rparr>"

text \<open>
  What a command does on the sample machine. A command that fails does so because the
  shell does not find its program, and \<^verbatim>\<open>exec\<close> rejects with the message
  \<^verbatim>\<open>Command failed: \<close> followed by the command, a line feed and what the shell wrote
  to stderr. A command that succeeds prints nothing, except ffprobe, which prints the
  empty JSON object.
\<close>

definition sample_exec :: "(string \<Rightarrow> bool) \<Rightarrow> string \<Rightarrow> string + string" where
  "sample_exec fails c =
    (if fails c
     then Inl (''Command failed: '' @ c @ [CHR 0x0A] @ ''/bin/sh: 1: ''
                 @ takeWhile (\<lambda>x. x \<noteq> CHR '' '') c @ '': not found'' @ [CHR 0x0A])
     else Inr (if take 7 c = ''ffprobe'' then ''{}'' else []))"

text \<open>
  Lines 406 to 443 on the two outputs that a command of the sample machine can print:
  for the empty JSON object the text is the title line alone (there is neither a
  \<^verbatim>\<open>format\<close> nor a \<^verbatim>\<open>streams\<close> member), and for the empty output
  \<^verbatim>\<open>JSON.parse\<close> throws.
\<close>

definition sample_format :: "string \<Rightarrow> string \<Rightarrow> string + string" where
  "sample_format base out =
    (if out = ''{}'' then Inr (''Video Information for: '' @ base @ [CHR 0x0A, CHR 0x0A])
     else Inl ''Unexpected end of JSON input'')"

text \<open>
  A machine with one video, \<^verbatim>\<open>/videos/clip.avi\<close>, and two writable directories; the
  value of \<^verbatim>\<open>DISABLE_NOTIFICATIONS\<close>, the reply of the notifier and which commands
  fail are left open.
\<close>

definition sample_world :: "string option \<Rightarrow> notify_reply option \<Rightarrow> (string \<Rightarrow> bool) \<Rightarrow> world" where
  "sample_world disable reply fails =
    \<lparr>env = (\<lambda>k. if k = ''DISABLE_NOTIFICATIONS'' then disable else None),
     tmpdir = ''/tmp'',
     fs_access = (\<lambda>h p. p = ''/videos/clip.avi''),
     fs_access_w = (\<lambda>h p. p = ''/tmp/ffmpeg-output'' \<or> p = ''/out''),
     fs_mkdir = (\<lambda>h p. None),
     notify = (\<lambda>h m. reply),
     exec = (\<lambda>h c. sample_exec fails c),
     formatVideoInfo = sample_format\<rparr>"

text \<open>Which commands fail: none, all, or only the resize of the sample video to 720p.\<close>

definition all_exec :: "string \<Rightarrow> bool" where
  "all_exec c = False"

definition no_exec :: "string \<Rightarrow> bool" where
  "no_exec c = True"

definition only_720p_fails :: "string \<Rightarrow> bool" where
  "only_720p_fails c = (c = spec_resize_command ''/videos/clip.avi'' ''720p'' ''/out/clip_720p.avi'')"

text \<open>
  The text that resize-video returns on the sample machine when the only requested
  resolution is 360p and its run fails.
\<close>

definition failed_360p_report :: string where
  "failed_360p_report =
    ''Processed 1 resolutions (0 successful, 1 failed)'' @ [CHR 0x0A, CHR 0x0A]
      @ [CHR 0xE2, CHR 0x9D, CHR 0x8C] @ '' 360p: Failed - Command failed: ''
      @ spec_resize_command ''/videos/clip.avi'' ''360p'' ''/out/clip_360p.avi'' @ [CHR 0x0A]
      @ ''/bin/sh: 1: ffmpeg: not found'' @ [CHR 0x0A] @ [CHR 0x0A]"

text \<open>
  The same machine when the default output directory cannot be created and only the
  temporary directory itself is writable.
\<close>

definition mkdir_fails_world :: "notify_reply option \<Rightarrow> (string \<Rightarrow> bool) \<Rightarrow> world" where
  "mkdir_fails_world reply fails =
    (sample_world None reply fails)
      \<lparr>fs_access_w := (\<lambda>h p. p = ''/tmp''),
       fs_mkdir := (\<lambda>h p. Some ''EACCES: permission denied'')\<rparr>"

text \<open>
  An upload to the HTTP API: the controller lives in \<^verbatim>\<open>/app/controllers\<close>, the
  \<^verbatim>\<open>resolutions\<close> field parses to the given value and every job ends at time 1.
\<close>

definition sample_http :: "json \<Rightarrow> http_world" where
  "sample_http parsed =
    \<lparr>dirname = ''/app/controllers'', json_parse = (\<lambda>t. Inr parsed), run_job = (\<lambda>j. Ended 1)\<rparr>"

definition sample_upload :: upload where
  "sample_upload = \<lparr>up_path = ''/app/uploads/17-42.avi'', up_filename = ''17-42.avi''\<rparr>"

definition sample_request :: "string option \<Rightarrow> http_request" where
  "sample_request field = \<lparr>req_file = Some sample_upload, body_resolutions = field, body_format = None\<rparr>"

section \<open>Properties\<close>

subsection \<open>Traces\<close>

lemma execs_simps [simp]:
  "execs [] = []"
  "execs (Exec c # tr) = c # execs tr"
  "execs (FsAccess p # tr) = execs tr"
  "execs (FsAccessW p # tr) = execs tr"
  "execs (FsMkdir p # tr) = execs tr"
  "execs (Notify m # tr) = execs tr"
  "execs (ConsoleLog m # tr) = execs tr"
  "execs (ConsoleError m # tr) = execs tr"
  "execs (tr @ tr') = execs tr @ execs tr'"
  by (simp_all add: execs_def)

lemma notifications_simps [simp]:
  "notifications [] = []"
  "notifications (Notify m # tr) = m # notifications tr"
  "notifications (FsAccess p # tr) = notifications tr"
  "notifications (FsAccessW p # tr) = notifications tr"
  "notifications (FsMkdir p # tr) = notifications tr"
  "notifications (Exec c # tr) = notifications tr"
  "notifications (ConsoleLog m # tr) = notifications tr"
  "notifications (ConsoleError m # tr) = notifications tr"
  "notifications (tr @ tr') = notifications tr @ notifications tr'"
  by (simp_all add: notifications_def)

lemma execs_map_Exec [simp]: "execs (map Exec cs) = cs"
  by (induction cs) simp_all

lemma notifications_map_Exec [simp]: "notifications (map Exec cs) = []"
  by (induction cs) simp_all

lemma askPermission_disabled:
  "env w ''DISABLE_NOTIFICATIONS'' = Some ''true'' \<Longrightarrow>
   askPermission w h a = (Some True, [ConsoleLog (''Auto-allowing action (notifications disabled): '' @ a)])"
  by (simp add: askPermission_def)

lemma askPermission_execs: "askPermission w h a = (g, ev) \<Longrightarrow> execs ev = []"
  by (auto simp: askPermission_def Let_def split: if_splits option.splits)

lemma ensureDirectoriesExist_quiet:
  "ensureDirectoriesExist w P h = (d, ev) \<Longrightarrow> execs ev = [] \<and> notifications ev = []"
  by (auto simp: ensureDirectoriesExist_def Let_def split: option.splits)

lemma output_directory_quiet:
  "output_directory w P h od = (d, ev) \<Longrightarrow> execs ev = [] \<and> notifications ev = []"
  by (auto simp: output_directory_def split: option.splits if_splits dest: ensureDirectoriesExist_quiet)

lemma check_arguments_Inr:
  "check_arguments w P h v od = Inr (a, d, tr) \<Longrightarrow>
     a = resolve P v \<and> fs_access w h a \<and> execs tr = [] \<and> notifications tr = []
     \<and> (\<exists>ev. output_directory w P (h @ [FsAccess a]) od = (d, ev) \<and> tr = FsAccess a # ev @ [FsAccessW d]
          \<and> fs_access_w w (h @ FsAccess a # ev) d)"
  by (auto simp: check_arguments_def Let_def split: if_splits prod.splits dest: output_directory_quiet)

lemma check_arguments_Inl:
  "check_arguments w P h v od = Inl (r, tr) \<Longrightarrow> execs tr = [] \<and> notifications tr = [] \<and> isError r"
  by (auto simp: check_arguments_def Let_def video_not_found_def dir_not_writable_def error_result_def
      split: if_splits prod.splits dest: output_directory_quiet)

subsection \<open>The loop of resize-video\<close>

lemma show_nat_table:
  "show_nat 640 = ''640''" "show_nat 360 = ''360''" "show_nat 854 = ''854''" "show_nat 480 = ''480''"
  "show_nat 1280 = ''1280''" "show_nat 720 = ''720''" "show_nat 1920 = ''1920''" "show_nat 1080 = ''1080''"
  by (simp_all add: show_nat.simps digit_def)

lemma RESOLUTIONS_cases:
  "map_of RESOLUTIONS r = Some (wd, ht) \<Longrightarrow>
     (r = ''360p'' \<and> wd = 640 \<and> ht = 360) \<or> (r = ''480p'' \<and> wd = 854 \<and> ht = 480)
     \<or> (r = ''720p'' \<and> wd = 1280 \<and> ht = 720) \<or> (r = ''1080p'' \<and> wd = 1920 \<and> ht = 1080)"
  by (simp add: RESOLUTIONS_def split: if_splits)

lemma resize_command_spec:
  "map_of RESOLUTIONS r = Some (wd, ht) \<Longrightarrow> resize_command a wd ht out = spec_resize_command a r out"
  by (drule RESOLUTIONS_cases)
     (auto simp: resize_command_def spec_resize_command_def spec_scale_def show_nat_table)

lemma RESOLUTION_keys_lookup:
  "r \<in> set RESOLUTION_keys \<Longrightarrow> \<exists>wd ht. map_of RESOLUTIONS r = Some (wd, ht)"
  by (auto simp: RESOLUTION_keys_def RESOLUTIONS_def)

lemma resize_loop_valid:
  "set rs \<subseteq> set RESOLUTION_keys \<Longrightarrow>
   \<exists>results. resize_loop w P h a d rs = (Inr results, map Exec (commands_for P a d rs))
     \<and> map rr_resolution results = rs
     \<and> map rr_outputPath results = map (resize_outputPath P a d) rs"
proof (induction rs arbitrary: h)
  case Nil
  then show ?case by (simp add: commands_for_def)
next
  case (Cons r rs)
  from Cons.prems have "r \<in> set RESOLUTION_keys" by simp
  then obtain wd ht where look: "map_of RESOLUTIONS r = Some (wd, ht)"
    using RESOLUTION_keys_lookup by blast
  let ?c = "spec_resize_command a r (resize_outputPath P a d r)"
  from Cons.prems have "set rs \<subseteq> set RESOLUTION_keys" by simp
  from Cons.IH [OF this, of "h @ [Exec ?c]"] obtain results where
    rest: "resize_loop w P (h @ [Exec ?c]) a d rs = (Inr results, map Exec (commands_for P a d rs))"
      "map rr_resolution results = rs" "map rr_outputPath results = map (resize_outputPath P a d) rs"
    by blast
  show ?case
    using look rest
    by (cases "exec w h ?c") (simp_all add: Let_def resize_command_spec commands_for_def)
qed

subsection \<open>The handlers before and after the permission gate\<close>

lemma resize_video_stopped:
  "check_arguments w P h v od = Inr (a, d, tr) \<Longrightarrow>
   askPermission w (h @ tr) (resize_permission_message P a rs) = (g, ev) \<Longrightarrow> g \<noteq> Some True \<Longrightarrow>
   resize_video w P h v rs od = (if g = None then None else Some permission_denied, tr @ ev)"
  by (cases g) (auto simp: resize_video_def split: if_splits)

lemma extract_audio_stopped:
  "check_arguments w P h v od = Inr (a, d, tr) \<Longrightarrow>
   askPermission w (h @ tr) (extract_permission_message P a f) = (g, ev) \<Longrightarrow> g \<noteq> Some True \<Longrightarrow>
   extract_audio w P h v f od = (if g = None then None else Some permission_denied, tr @ ev)"
  by (cases g) (auto simp: extract_audio_def split: if_splits)

lemma get_video_info_stopped:
  "fs_access w h (resolve P v) \<Longrightarrow>
   askPermission w (h @ [FsAccess (resolve P v)]) (info_permission_message P (resolve P v)) = (g, ev) \<Longrightarrow>
   g \<noteq> Some True \<Longrightarrow>
   get_video_info w P h v = (if g = None then None else Some permission_denied, FsAccess (resolve P v) # ev)"
  by (cases g) (auto simp: get_video_info_def Let_def split: if_splits)

lemma resize_video_permitted:
  assumes "check_arguments w P h v od = Inr (a, d, tr)"
    and "askPermission w (h @ tr) (resize_permission_message P a rs) = (Some True, ev)"
  shows "\<exists>r ex. resize_video w P h v rs od = (Some r, tr @ ev @ ex)
           \<and> (\<exists>x. resize_loop w P (h @ tr @ ev) a d rs = (x, ex))"
  using assms by (auto simp: resize_video_def split: prod.splits sum.splits)

lemma resize_video_valid:
  assumes "check_arguments w P h v od = Inr (a, d, tr)"
    and "askPermission w (h @ tr) (resize_permission_message P a rs) = (Some True, ev)"
    and "set rs \<subseteq> set RESOLUTION_keys"
  shows "\<exists>results. resize_video w P h v rs od
             = (Some (ok_result (resize_report results)), tr @ ev @ map Exec (commands_for P a d rs))
           \<and> resize_loop w P (h @ tr @ ev) a d rs = (Inr results, map Exec (commands_for P a d rs))
           \<and> map rr_resolution results = rs"
proof -
  from resize_loop_valid [OF assms(3), of w P "h @ tr @ ev" a d] obtain results where
    "resize_loop w P (h @ tr @ ev) a d rs = (Inr results, map Exec (commands_for P a d rs))"
    "map rr_resolution results = rs"
    by blast
  with assms(1,2) show ?thesis by (auto simp: resize_video_def)
qed

lemma extract_audio_permitted:
  assumes "check_arguments w P h v od = Inr (a, d, tr)"
    and "askPermission w (h @ tr) (extract_permission_message P a f) = (Some True, ev)"
  shows "snd (extract_audio w P h v f od)
           = tr @ ev @ [Exec (spec_extract_command a (audioCodec f) (extract_outputPath P a d f))]"
  using assms
  by (auto simp: extract_audio_def Let_def extract_command_def spec_extract_command_def split: sum.splits)

lemma get_video_info_permitted:
  assumes "fs_access w h (resolve P v)"
    and "askPermission w (h @ [FsAccess (resolve P v)]) (info_permission_message P (resolve P v)) = (Some True, ev)"
  shows "snd (get_video_info w P h v) = FsAccess (resolve P v) # ev @ [Exec (info_command (resolve P v))]"
  using assms by (auto simp: get_video_info_def Let_def split: sum.splits)

lemma gate_passedI:
  "askPermission w (h @ pre) m = (Some True, ev) \<Longrightarrow> execs pre = [] \<Longrightarrow> gate_passed w h m pre (pre @ ev @ post)"
  unfolding gate_passed_def using askPermission_execs by fastforce

lemma resize_video_gated:
  "execs (snd (resize_video w P h v rs od)) \<noteq> [] \<Longrightarrow>
   \<exists>a d tr. check_arguments w P h v od = Inr (a, d, tr)
     \<and> gate_passed w h (resize_permission_message P a rs) tr (snd (resize_video w P h v rs od))"
proof (cases "check_arguments w P h v od")
  case (Inl x)
  assume ex: "execs (snd (resize_video w P h v rs od)) \<noteq> []"
  obtain r tr where "x = (r, tr)" by (cases x)
  with Inl ex check_arguments_Inl [of w P h v od r tr] show ?thesis
    by (simp add: resize_video_def)
next
  case (Inr y)
  assume ex: "execs (snd (resize_video w P h v rs od)) \<noteq> []"
  obtain a d tr where y: "y = (a, d, tr)" by (cases y)
  with Inr have chk: "check_arguments w P h v od = Inr (a, d, tr)" by simp
  from check_arguments_Inr [OF chk] have quiet: "execs tr = []" by simp
  obtain g ev where ask: "askPermission w (h @ tr) (resize_permission_message P a rs) = (g, ev)"
    by (cases "askPermission w (h @ tr) (resize_permission_message P a rs)")
  show ?thesis
  proof (cases "g = Some True")
    case True
    with ask have ask': "askPermission w (h @ tr) (resize_permission_message P a rs) = (Some True, ev)"
      by simp
    from resize_video_permitted [OF chk ask'] obtain r ex' where
      "resize_video w P h v rs od = (Some r, tr @ ev @ ex')" by blast
    with gate_passedI [OF ask' quiet, of ex']
    have "gate_passed w h (resize_permission_message P a rs) tr (snd (resize_video w P h v rs od))"
      by simp
    with chk show ?thesis by blast
  next
    case False
    from resize_video_stopped [OF chk ask False] ex quiet askPermission_execs [OF ask]
    show ?thesis by simp
  qed
qed

lemma extract_audio_gated:
  "execs (snd (extract_audio w P h v f od)) \<noteq> [] \<Longrightarrow>
   \<exists>a d tr. check_arguments w P h v od = Inr (a, d, tr)
     \<and> gate_passed w h (extract_permission_message P a f) tr (snd (extract_audio w P h v f od))"
proof (cases "check_arguments w P h v od")
  case (Inl x)
  assume ex: "execs (snd (extract_audio w P h v f od)) \<noteq> []"
  obtain r tr where "x = (r, tr)" by (cases x)
  with Inl ex check_arguments_Inl [of w P h v od r tr] show ?thesis
    by (simp add: extract_audio_def)
next
  case (Inr y)
  assume ex: "execs (snd (extract_audio w P h v f od)) \<noteq> []"
  obtain a d tr where y: "y = (a, d, tr)" by (cases y)
  with Inr have chk: "check_arguments w P h v od = Inr (a, d, tr)" by simp
  from check_arguments_Inr [OF chk] have quiet: "execs tr = []" by simp
  obtain g ev where ask: "askPermission w (h @ tr) (extract_permission_message P a f) = (g, ev)"
    by (cases "askPermission w (h @ tr) (extract_permission_message P a f)")
  show ?thesis
  proof (cases "g = Some True")
    case True
    with ask have ask': "askPermission w (h @ tr) (extract_permission_message P a f) = (Some True, ev)"
      by simp
    from extract_audio_permitted [OF chk ask']
    have "snd (extract_audio w P h v f od)
            = tr @ ev @ [Exec (spec_extract_command a (audioCodec f) (extract_outputPath P a d f))]" .
    with gate_passedI [OF ask' quiet,
        of "[Exec (spec_extract_command a (audioCodec f) (extract_outputPath P a d f))]"]
    have "gate_passed w h (extract_permission_message P a f) tr (snd (extract_audio w P h v f od))"
      by simp
    with chk show ?thesis by blast
  next
    case False
    from extract_audio_stopped [OF chk ask False] ex quiet askPermission_execs [OF ask]
    show ?thesis by simp
  qed
qed

lemma get_video_info_gated:
  "execs (snd (get_video_info w P h v)) \<noteq> [] \<Longrightarrow>
   fs_access w h (resolve P v)
   \<and> gate_passed w h (info_permission_message P (resolve P v)) [FsAccess (resolve P v)]
        (snd (get_video_info w P h v))"
proof (cases "fs_access w h (resolve P v)")
  case False
  assume "execs (snd (get_video_info w P h v)) \<noteq> []"
  with False show ?thesis by (simp add: get_video_info_def Let_def)
next
  case True
  assume ex: "execs (snd (get_video_info w P h v)) \<noteq> []"
  let ?a = "resolve P v"
  obtain g ev where ask: "askPermission w (h @ [FsAccess ?a]) (info_permission_message P ?a) = (g, ev)"
    by (cases "askPermission w (h @ [FsAccess ?a]) (info_permission_message P ?a)")
  show ?thesis
  proof (cases "g = Some True")
    case g: True
    with ask have ask': "askPermission w (h @ [FsAccess ?a]) (info_permission_message P ?a) = (Some True, ev)"
      by simp
    from get_video_info_permitted [OF True ask']
    have "snd (get_video_info w P h v) = [FsAccess ?a] @ ev @ [Exec (info_command ?a)]" by simp
    with gate_passedI [OF ask', of "[Exec (info_command ?a)]"]
    have "gate_passed w h (info_permission_message P ?a) [FsAccess ?a] (snd (get_video_info w P h v))"
      by simp
    with True show ?thesis by simp
  next
    case False
    from get_video_info_stopped [OF True ask False] ex askPermission_execs [OF ask]
    show ?thesis by simp
  qed
qed

lemma askPermission_True_iff:
  "fst (askPermission w h m) = Some True \<longleftrightarrow>
     (env w ''DISABLE_NOTIFICATIONS'' = Some ''true''
      \<or> (\<exists>r. notify w h m = Some r \<and> \<not> truthy (nr_err r)
            \<and> js_or (case nr_metadata r of None \<Rightarrow> None | Some x \<Rightarrow> x) (nr_response r) \<noteq> Some ''Deny''))"
  by (auto simp: askPermission_def Let_def split: option.splits)

lemma not_denied [simp]:
  "ok_result t \<noteq> permission_denied"
  "(error_result t = permission_denied) = (t = ''Permission denied by user'')"
  by (simp_all add: ok_result_def permission_denied_def error_result_def)

lemma check_arguments_Inl_not_denied:
  "check_arguments w P h v od = Inl (r, tr) \<Longrightarrow> r \<noteq> permission_denied"
  by (auto simp: check_arguments_def Let_def video_not_found_def dir_not_writable_def
      split: if_splits prod.splits)

lemma resize_loop_events:
  "resize_loop w P h a d rs = (x, ex) \<Longrightarrow> \<exists>cs. ex = map Exec cs"
proof (induction rs arbitrary: h x ex)
  case Nil
  then show ?case by simp
next
  case (Cons r rs)
  show ?case
  proof (cases "map_of RESOLUTIONS r")
    case None
    with Cons.prems show ?thesis by simp
  next
    case (Some dims)
    obtain wd ht where dims: "dims = (wd, ht)" by (cases dims)
    let ?c = "resize_command a wd ht (resize_outputPath P a d r)"
    obtain x' ex' where rest: "resize_loop w P (h @ [Exec ?c]) a d rs = (x', ex')"
      by (cases "resize_loop w P (h @ [Exec ?c]) a d rs")
    from Cons.IH [OF rest] obtain cs where "ex' = map Exec cs" by blast
    with Cons.prems Some dims rest have "ex = map Exec (?c # cs)"
      by (cases x') (auto simp: Let_def)
    then show ?thesis by blast
  qed
qed

lemma resize_video_permitted':
  assumes "check_arguments w P h v od = Inr (a, d, tr)"
    and "askPermission w (h @ tr) (resize_permission_message P a rs) = (Some True, ev)"
  shows "\<exists>r cs. resize_video w P h v rs od = (Some r, tr @ ev @ map Exec cs) \<and> r \<noteq> permission_denied"
proof -
  obtain x ex where loop: "resize_loop w P (h @ tr @ ev) a d rs = (x, ex)"
    by (cases "resize_loop w P (h @ tr @ ev) a d rs")
  from resize_loop_events [OF loop] obtain cs where "ex = map Exec cs" by blast
  with assms loop show ?thesis
    by (cases x) (auto simp: resize_video_def)
qed

lemma resize_video_disabled:
  assumes "env w ''DISABLE_NOTIFICATIONS'' = Some ''true''"
  shows "fst (resize_video w P h v rs od) \<noteq> None
     \<and> fst (resize_video w P h v rs od) \<noteq> Some permission_denied
     \<and> notifications (snd (resize_video w P h v rs od)) = []"
proof (cases "check_arguments w P h v od")
  case (Inl x)
  then show ?thesis
    using check_arguments_Inl [of w P h v od "fst x" "snd x"]
      check_arguments_Inl_not_denied [of w P h v od "fst x" "snd x"]
    by (auto simp: resize_video_def split: prod.splits)
next
  case (Inr y)
  obtain a d tr where "y = (a, d, tr)" by (cases y)
  with Inr have chk: "check_arguments w P h v od = Inr (a, d, tr)" by simp
  obtain ev where ask: "askPermission w (h @ tr) (resize_permission_message P a rs) = (Some True, ev)"
    and ev: "notifications ev = []"
    using askPermission_disabled [OF assms] by simp
  from resize_video_permitted' [OF chk ask] check_arguments_Inr [OF chk] ev
  show ?thesis by auto
qed

lemma extract_audio_disabled:
  assumes "env w ''DISABLE_NOTIFICATIONS'' = Some ''true''"
  shows "fst (extract_audio w P h v f od) \<noteq> None
     \<and> fst (extract_audio w P h v f od) \<noteq> Some permission_denied
     \<and> notifications (snd (extract_audio w P h v f od)) = []"
proof (cases "check_arguments w P h v od")
  case (Inl x)
  then show ?thesis
    using check_arguments_Inl [of w P h v od "fst x" "snd x"]
      check_arguments_Inl_not_denied [of w P h v od "fst x" "snd x"]
    by (auto simp: extract_audio_def split: prod.splits)
next
  case (Inr y)
  obtain a d tr where "y = (a, d, tr)" by (cases y)
  with Inr have chk: "check_arguments w P h v od = Inr (a, d, tr)" by simp
  obtain ev where ask: "askPermission w (h @ tr) (extract_permission_message P a f) = (Some True, ev)"
    and ev: "notifications ev = []"
    using askPermission_disabled [OF assms] by simp
  from chk ask check_arguments_Inr [OF chk] ev
  show ?thesis by (auto simp: extract_audio_def Let_def split: sum.splits)
qed

lemma get_video_info_disabled:
  assumes "env w ''DISABLE_NOTIFICATIONS'' = Some ''true''"
  shows "fst (get_video_info w P h v) \<noteq> None
     \<and> fst (get_video_info w P h v) \<noteq> Some permission_denied
     \<and> notifications (snd (get_video_info w P h v)) = []"
proof -
  obtain ev where ask: "askPermission w (h @ [FsAccess (resolve P v)]) (info_permission_message P (resolve P v)) = (Some True, ev)"
    and ev: "notifications ev = []"
    using askPermission_disabled [OF assms] by simp
  then show ?thesis by (auto simp: get_video_info_def Let_def video_not_found_def split: sum.splits)
qed

subsection \<open>The handlers on the sample worlds\<close>

lemma sample_check:
  "check_arguments (sample_world e r x) (posix c) h ''/videos/clip.avi'' (Some ''/out'')
     = Inr (''/videos/clip.avi'', ''/out'', [FsAccess ''/videos/clip.avi'', FsAccessW ''/out''])"
  by (simp add: check_arguments_def output_directory_def Let_def sample_world_def posix_def
      posix_resolve_def)

lemma sample_ask:
  "askPermission (sample_world None (Some allow_reply) x) h m = (Some True, [Notify m])"
  "askPermission (sample_world None (Some timeout_reply) x) h m = (Some True, [Notify m])"
  "askPermission (sample_world None (Some deny_reply) x) h m = (Some False, [Notify m])"
  by (simp_all add: askPermission_def sample_world_def allow_reply_def timeout_reply_def
      deny_reply_def js_or_def)

lemma sample_paths:
  "resolve (posix c) ''/videos/clip.avi'' = ''/videos/clip.avi''"
  "basename (posix c) ''/videos/clip.avi'' = ''clip.avi''"
  "extname (posix c) ''/videos/clip.avi'' = ''.avi''"
  "basename_ext (posix c) ''/videos/clip.avi'' ''.avi'' = ''clip''"
  "join (posix c) [''/out'', n] = (if n = [] then ''/out'' else ''/out/'' @ n)"
  by (simp_all add: posix_def posix_resolve_def last_segment_def posix_extname_def ext_of_def
      posix_basename_ext_def)

lemma sample_outputs:
  "resize_outputPath (posix c) ''/videos/clip.avi'' ''/out'' r = ''/out/clip_'' @ r @ ''.avi''"
  "extract_outputPath (posix c) ''/videos/clip.avi'' ''/out'' f = ''/out/clip.'' @ f"
  by (simp_all add: resize_outputPath_def extract_outputPath_def Let_def sample_paths)

lemma sample_messages:
  "resize_permission_message (posix c) ''/videos/clip.avi'' rs = ''Resize video clip.avi to '' @ join_with '', '' rs"
  "extract_permission_message (posix c) ''/videos/clip.avi'' f = ''Extract '' @ f @ '' audio from video clip.avi''"
  "info_permission_message (posix c) ''/videos/clip.avi'' = ''Analyze video file clip.avi''"
  by (simp_all add: resize_permission_message_def extract_permission_message_def
      info_permission_message_def sample_paths)

lemma sample_resize_run:
  assumes "set rs \<subseteq> set RESOLUTION_keys"
  shows "snd (resize_video (sample_world None (Some allow_reply) x) (posix c) h ''/videos/clip.avi'' rs
            (Some ''/out''))
     = [FsAccess ''/videos/clip.avi'', FsAccessW ''/out'',
        Notify (''Resize video clip.avi to '' @ join_with '', '' rs)]
       @ map (\<lambda>r. Exec (spec_resize_command ''/videos/clip.avi'' r (''/out/clip_'' @ r @ ''.avi''))) rs"
proof -
  let ?w = "sample_world None (Some allow_reply) x"
  let ?tr = "[FsAccess ''/videos/clip.avi'', FsAccessW ''/out'']"
  have chk: "check_arguments ?w (posix c) h ''/videos/clip.avi'' (Some ''/out'')
      = Inr (''/videos/clip.avi'', ''/out'', ?tr)"
    by (rule sample_check)
  have ask: "askPermission ?w (h @ ?tr) (resize_permission_message (posix c) ''/videos/clip.avi'' rs)
      = (Some True, [Notify (''Resize video clip.avi to '' @ join_with '', '' rs)])"
    by (simp add: sample_ask sample_messages)
  from resize_video_valid [OF chk ask assms] show ?thesis
    by (auto simp: sample_outputs commands_for_def)
qed

lemma sample_extract_run:
  "snd (extract_audio (sample_world None (Some allow_reply) x) (posix c) h ''/videos/clip.avi'' f
            (Some ''/out''))
     = [FsAccess ''/videos/clip.avi'', FsAccessW ''/out'',
        Notify (''Extract '' @ f @ '' audio from video clip.avi''),
        Exec (spec_extract_command ''/videos/clip.avi'' (audioCodec f) (''/out/clip.'' @ f))]"
proof -
  let ?w = "sample_world None (Some allow_reply) x"
  let ?tr = "[FsAccess ''/videos/clip.avi'', FsAccessW ''/out'']"
  have chk: "check_arguments ?w (posix c) h ''/videos/clip.avi'' (Some ''/out'')
      = Inr (''/videos/clip.avi'', ''/out'', ?tr)"
    by (rule sample_check)
  have ask: "askPermission ?w (h @ ?tr) (extract_permission_message (posix c) ''/videos/clip.avi'' f)
      = (Some True, [Notify (''Extract '' @ f @ '' audio from video clip.avi'')])"
    by (simp add: sample_ask sample_messages)
  from extract_audio_permitted [OF chk ask] show ?thesis
    by (simp add: sample_outputs)
qed

lemma sample_access:
  "fs_access (sample_world e r x) h p = (p = ''/videos/clip.avi'')"
  by (simp add: sample_world_def)

lemma sample_info_run:
  "snd (get_video_info (sample_world None (Some allow_reply) x) (posix c) h ''/videos/clip.avi'')
     = [FsAccess ''/videos/clip.avi'', Notify ''Analyze video file clip.avi'',
        Exec (info_command ''/videos/clip.avi'')]"
  using get_video_info_permitted [of "sample_world None (Some allow_reply) x" h "posix c"
      "''/videos/clip.avi''" "[Notify ''Analyze video file clip.avi'']"]
  by (simp add: sample_ask sample_messages sample_paths sample_access)

lemma sample_default_check:
  "check_arguments (sample_world e r x) (posix c) h ''/videos/clip.avi'' None
     = Inr (''/videos/clip.avi'', ''/tmp/ffmpeg-output'',
            [FsAccess ''/videos/clip.avi'', FsMkdir ''/tmp/ffmpeg-output'', FsAccessW ''/tmp/ffmpeg-output''])"
  by (simp add: check_arguments_def output_directory_def ensureDirectoriesExist_def Let_def
      sample_world_def posix_def posix_resolve_def)

lemma mkdir_fails_check:
  "check_arguments (mkdir_fails_world r x) (posix c) h ''/videos/clip.avi'' None
     = Inr (''/videos/clip.avi'', ''/tmp'',
            [FsAccess ''/videos/clip.avi'', FsMkdir ''/tmp/ffmpeg-output'',
             ConsoleError ''Error creating output directory: EACCES: permission denied'',
             FsAccessW ''/tmp''])"
  by (simp add: check_arguments_def output_directory_def ensureDirectoriesExist_def Let_def
      mkdir_fails_world_def sample_world_def posix_def posix_resolve_def)

lemma mkdir_fails_ask:
  "askPermission (mkdir_fails_world (Some allow_reply) x) h m = (Some True, [Notify m])"
  by (simp add: askPermission_def mkdir_fails_world_def sample_world_def allow_reply_def js_or_def)

lemma sample_ensure:
  "ensureDirectoriesExist (sample_world e r x) (posix c) h = (''/tmp/ffmpeg-output'', [FsMkdir ''/tmp/ffmpeg-output''])"
  "ensureDirectoriesExist (mkdir_fails_world r x) (posix c) h
     = (''/tmp'', [FsMkdir ''/tmp/ffmpeg-output'',
          ConsoleError ''Error creating output directory: EACCES: permission denied''])"
  by (simp_all add: ensureDirectoriesExist_def Let_def mkdir_fails_world_def sample_world_def posix_def)

subsection \<open>POSIX base names and extensions\<close>





subsection \<open>The HTTP resize endpoint\<close>

lemma resizeVideo_jobs:
  assumes "req_file req = Some file"
    and "requested_resolutions hw (body_resolutions req) = Inr rs"
  shows "snd (resizeVideo hw P req)
     = map (resize_job hw P (up_path file) (parse_name P (up_filename file))) (validResolutions rs)"
  using assms
  by (auto simp: resizeVideo_def Let_def split: list.splits prod.splits)

lemma resizeVideo_400:
  assumes "req_file req = Some file"
    and "requested_resolutions hw (body_resolutions req) = Inr rs"
  shows "(validResolutions rs = [] \<longrightarrow>
            fst (resizeVideo hw P req)
              = Some \<lparr>status = 400, body = ErrorOptions ''No valid resolutions specified'' RESOLUTION_keys\<rparr>)
       \<and> (validResolutions rs \<noteq> [] \<longrightarrow>
            (\<forall>b. fst (resizeVideo hw P req) \<noteq> Some \<lparr>status = 400, body = b\<rparr>))"
  using assms
  by (auto simp: resizeVideo_def Let_def split: list.splits prod.splits)

lemma validResolutions_empty:
  "validResolutions rs = [] \<longleftrightarrow> set rs \<inter> set RESOLUTION_keys = {}"
  by (auto simp: validResolutions_def filter_empty_conv)

lemma RESOLUTION_keys_eq: "RESOLUTION_keys = [''360p'', ''480p'', ''720p'', ''1080p'']"
  by (simp add: RESOLUTION_keys_def RESOLUTIONS_def)

subsection \<open>The report of resize-video\<close>

lemma result_line_entry:
  "result_line \<lparr>rr_resolution = r, rr_outputPath = p, rr_success = True, rr_error = None\<rparr>
     = spec_entry (r, p, Inr out)"
  "result_line \<lparr>rr_resolution = r, rr_outputPath = p, rr_success = False, rr_error = Some e\<rparr>
     = spec_entry (r, p, Inl e)"
  by (simp_all add: result_line_def spec_entry_def check_mark_def cross_mark_def nl_def)

lemma resize_loop_rows:
  "set rs \<subseteq> set RESOLUTION_keys \<Longrightarrow>
   \<exists>results. resize_loop w P h a d rs = (Inr results, map Exec (commands_for P a d rs))
     \<and> map result_line results = map spec_entry (report_rows w P h a d rs)
     \<and> map rr_success results = map succeeded (report_rows w P h a d rs)"
proof (induction rs arbitrary: h)
  case Nil
  then show ?case by (simp add: commands_for_def)
next
  case (Cons r rs)
  from Cons.prems have "r \<in> set RESOLUTION_keys" by simp
  then obtain wd ht where look: "map_of RESOLUTIONS r = Some (wd, ht)"
    using RESOLUTION_keys_lookup by blast
  let ?p = "resize_outputPath P a d r"
  let ?c = "spec_resize_command a r ?p"
  from Cons.prems have "set rs \<subseteq> set RESOLUTION_keys" by simp
  from Cons.IH [OF this, of "h @ [Exec ?c]"] obtain results where
    rest: "resize_loop w P (h @ [Exec ?c]) a d rs = (Inr results, map Exec (commands_for P a d rs))"
      "map result_line results = map spec_entry (report_rows w P (h @ [Exec ?c]) a d rs)"
      "map rr_success results = map succeeded (report_rows w P (h @ [Exec ?c]) a d rs)"
    by blast
  show ?case
    using look rest
    by (cases "exec w h ?c")
       (simp_all add: Let_def resize_command_spec commands_for_def result_line_entry succeeded_def)
qed

lemma length_filter_map: "length (filter P xs) = length (filter (\<lambda>b. b) (map P xs))"
  by (induction xs) simp_all

lemma resize_report_rows:
  assumes "map result_line results = map spec_entry rows"
    and "map rr_success results = map succeeded rows"
  shows "resize_report results = spec_report rows"
proof -
  from assms(1) have len: "length results = length rows"
    by (metis length_map)
  have good: "successCount results = length (filter succeeded rows)"
    unfolding successCount_def
    using length_filter_map [of rr_success results] length_filter_map [of succeeded rows] assms(2)
    by simp
  have "length (filter succeeded rows) + length (filter (\<lambda>row. \<not> succeeded row) rows) = length rows"
    by (rule sum_length_filter_compl)
  with good len have bad: "failCount results = length (filter (\<lambda>row. \<not> succeeded row) rows)"
    by (simp add: failCount_def)
  show ?thesis
    by (simp add: resize_report_def report_header_def spec_report_def nl_def len good bad assms(1))
qed

lemma report_rows_fst: "map fst (report_rows w P h a d rs) = rs"
  by (induction rs arbitrary: h) (simp_all add: Let_def)

lemma resize_video_text:
  assumes "check_arguments w P h v od = Inr (a, d, tr)"
    and "askPermission w (h @ tr) (resize_permission_message P a rs) = (Some True, ev)"
    and "set rs \<subseteq> set RESOLUTION_keys"
  shows "resize_video w P h v rs od
        = (Some \<lparr>isError = False, content = spec_report (report_rows w P (h @ tr @ ev) a d rs)\<rparr>,
           tr @ ev @ map Exec (commands_for P a d rs))"
proof -
  from resize_loop_rows [OF assms(3), of w P "h @ tr @ ev" a d] obtain results where
    loop: "resize_loop w P (h @ tr @ ev) a d rs = (Inr results, map Exec (commands_for P a d rs))"
    and rows: "map result_line results = map spec_entry (report_rows w P (h @ tr @ ev) a d rs)"
      "map rr_success results = map succeeded (report_rows w P (h @ tr @ ev) a d rs)"
    by blast
  from resize_report_rows [OF rows] assms(1,2) loop show ?thesis
    by (simp add: resize_video_def ok_result_def)
qed

lemma sample_fate:
  "exec (sample_world e r fails) h c = sample_exec fails c"
  "sample_exec fails c =
    (if fails c
     then Inl (''Command failed: '' @ c @ [CHR 0x0A] @ ''/bin/sh: 1: ''
                 @ takeWhile (\<lambda>x. x \<noteq> CHR '' '') c @ '': not found'' @ [CHR 0x0A])
     else Inr (if take 7 c = ''ffprobe'' then ''{}'' else []))"
  by (simp_all add: sample_world_def sample_exec_def)

lemma program_name:
  "takeWhile (\<lambda>x. x \<noteq> CHR '' '') (spec_resize_command a r p) = ''ffmpeg''"
  "take 7 (spec_resize_command a r p) \<noteq> ''ffprobe''"
  by (simp_all add: spec_resize_command_def)

lemma show_nat_small:
  "show_nat 0 = ''0''" "show_nat (Suc 0) = ''1''" "show_nat (Suc (Suc 0)) = ''2''"
  by (simp_all add: show_nat.simps digit_def)

section \<open>The claims\<close>

subsection \<open>The permission gate comes before every command\<close>

text \<open>
  C1, the claim as it is written, fails: with \<^verbatim>\<open>DISABLE_NOTIFICATIONS\<close> set to
  \<^verbatim>\<open>'true'\<close> get-video-info runs ffprobe although no notification was ever shown,
  and resize-video runs ffmpeg after a notification that timed out unanswered.
\<close>

theorem explicit_approval_counterexample:
  "snd (get_video_info (sample_world (Some ''true'') None all_exec) (posix ''/srv'') [] ''/videos/clip.avi'')
     = [FsAccess ''/videos/clip.avi'',
        ConsoleLog ''Auto-allowing action (notifications disabled): Analyze video file clip.avi'',
        Exec (info_command ''/videos/clip.avi'')]
   \<and> snd (resize_video (sample_world None (Some timeout_reply) all_exec) (posix ''/srv'') []
         ''/videos/clip.avi'' [''360p''] (Some ''/out''))
     = [FsAccess ''/videos/clip.avi'', FsAccessW ''/out'',
        Notify ''Resize video clip.avi to 360p'',
        Exec (spec_resize_command ''/videos/clip.avi'' ''360p'' ''/out/clip_360p.avi'')]"
proof -
  let ?off = "sample_world (Some ''true'') None all_exec"
  let ?late = "sample_world None (Some timeout_reply) all_exec"
  let ?tr = "[FsAccess ''/videos/clip.avi'', FsAccessW ''/out'']"
  have "env ?off ''DISABLE_NOTIFICATIONS'' = Some ''true''"
    by (simp add: sample_world_def)
  from askPermission_disabled [OF this]
  have "askPermission ?off ([] @ [FsAccess (resolve (posix ''/srv'') ''/videos/clip.avi'')])
      (info_permission_message (posix ''/srv'') (resolve (posix ''/srv'') ''/videos/clip.avi''))
    = (Some True, [ConsoleLog ''Auto-allowing action (notifications disabled): Analyze video file clip.avi''])"
    by (simp add: sample_paths sample_messages)
  from get_video_info_permitted [OF _ this]
  have info: "snd (get_video_info ?off (posix ''/srv'') [] ''/videos/clip.avi'')
     = [FsAccess ''/videos/clip.avi'',
        ConsoleLog ''Auto-allowing action (notifications disabled): Analyze video file clip.avi'',
        Exec (info_command ''/videos/clip.avi'')]"
    by (simp add: sample_access sample_paths)
  have chk: "check_arguments ?late (posix ''/srv'') [] ''/videos/clip.avi'' (Some ''/out'')
      = Inr (''/videos/clip.avi'', ''/out'', ?tr)"
    by (rule sample_check)
  have ask: "askPermission ?late ([] @ ?tr) (resize_permission_message (posix ''/srv'') ''/videos/clip.avi'' [''360p''])
      = (Some True, [Notify ''Resize video clip.avi to 360p''])"
    by (simp add: sample_ask sample_messages)
  have valid: "set [''360p''] \<subseteq> set RESOLUTION_keys"
    by (simp add: RESOLUTION_keys_def RESOLUTIONS_def)
  from resize_video_valid [OF chk ask valid]
  have "snd (resize_video ?late (posix ''/srv'') [] ''/videos/clip.avi'' [''360p''] (Some ''/out''))
     = [FsAccess ''/videos/clip.avi'', FsAccessW ''/out'',
        Notify ''Resize video clip.avi to 360p'',
        Exec (spec_resize_command ''/videos/clip.avi'' ''360p'' ''/out/clip_360p.avi'')]"
    by (auto simp: commands_for_def sample_outputs)
  with info show ?thesis by simp
qed

text \<open>
  C1, amended. In every call of resize-video, extract-audio and get-video-info, a
  command is run only when the input checks have passed and the permission gate, asked
  right after them, has returned true; nothing is run before it has answered. When the
  checks pass and the permission gate returns false, the tool returns the error
  ``Permission denied by user'' and has run no command. The permission gate returns
  true exactly when \<^verbatim>\<open>DISABLE_NOTIFICATIONS\<close> is \<^verbatim>\<open>'true'\<close> (nobody is asked), or the
  notifier reports no error and the button it reports is not \<^verbatim>\<open>'Deny'\<close>: an explicit
  approval is not required.
\<close>

theorem gate_before_commands:
  "(execs (snd (resize_video w P h v rs od)) \<noteq> [] \<longrightarrow>
      (\<exists>a' d' tr'. check_arguments w P h v od = Inr (a', d', tr')
         \<and> gate_passed w h (resize_permission_message P a' rs) tr' (snd (resize_video w P h v rs od))))
   \<and> (execs (snd (extract_audio w P h v f od)) \<noteq> [] \<longrightarrow>
      (\<exists>a' d' tr'. check_arguments w P h v od = Inr (a', d', tr')
         \<and> gate_passed w h (extract_permission_message P a' f) tr' (snd (extract_audio w P h v f od))))
   \<and> (execs (snd (get_video_info w P h v)) \<noteq> [] \<longrightarrow>
      fs_access w h (resolve P v)
      \<and> gate_passed w h (info_permission_message P (resolve P v)) [FsAccess (resolve P v)]
           (snd (get_video_info w P h v)))
   \<and> (check_arguments w P h v od = Inr (a, d, tr)
        \<and> askPermission w (h @ tr) (resize_permission_message P a rs) = (Some False, ev) \<longrightarrow>
      resize_video w P h v rs od
        = (Some \<lparr>isError = True, content = ''Permission denied by user''\<rparr>, tr @ ev)
      \<and> execs (tr @ ev) = [])
   \<and> (check_arguments w P h v od = Inr (a, d, tr)
        \<and> askPermission w (h @ tr) (extract_permission_message P a f) = (Some False, ev) \<longrightarrow>
      extract_audio w P h v f od
        = (Some \<lparr>isError = True, content = ''Permission denied by user''\<rparr>, tr @ ev)
      \<and> execs (tr @ ev) = [])
   \<and> (fs_access w h (resolve P v)
        \<and> askPermission w (h @ [FsAccess (resolve P v)]) (info_permission_message P (resolve P v))
            = (Some False, ev) \<longrightarrow>
      get_video_info w P h v
        = (Some \<lparr>isError = True, content = ''Permission denied by user''\<rparr>, FsAccess (resolve P v) # ev)
      \<and> execs (FsAccess (resolve P v) # ev) = [])
   \<and> (fst (askPermission w h m) = Some True \<longleftrightarrow>
        (env w ''DISABLE_NOTIFICATIONS'' = Some ''true''
         \<or> (\<exists>r. notify w h m = Some r \<and> \<not> truthy (nr_err r)
               \<and> js_or (case nr_metadata r of None \<Rightarrow> None | Some x \<Rightarrow> x) (nr_response r) \<noteq> Some ''Deny'')))"
proof (intro conjI impI)
  assume "execs (snd (resize_video w P h v rs od)) \<noteq> []"
  then show "\<exists>a' d' tr'. check_arguments w P h v od = Inr (a', d', tr')
         \<and> gate_passed w h (resize_permission_message P a' rs) tr' (snd (resize_video w P h v rs od))"
    by (rule resize_video_gated)
next
  assume "execs (snd (extract_audio w P h v f od)) \<noteq> []"
  then show "\<exists>a' d' tr'. check_arguments w P h v od = Inr (a', d', tr')
         \<and> gate_passed w h (extract_permission_message P a' f) tr' (snd (extract_audio w P h v f od))"
    by (rule extract_audio_gated)
next
  assume ex: "execs (snd (get_video_info w P h v)) \<noteq> []"
  from get_video_info_gated [OF ex] show "fs_access w h (resolve P v)"
    and "gate_passed w h (info_permission_message P (resolve P v)) [FsAccess (resolve P v)]
           (snd (get_video_info w P h v))"
    by simp_all
next
  assume a: "check_arguments w P h v od = Inr (a, d, tr)
        \<and> askPermission w (h @ tr) (resize_permission_message P a rs) = (Some False, ev)"
  then have chk: "check_arguments w P h v od = Inr (a, d, tr)"
    and ask: "askPermission w (h @ tr) (resize_permission_message P a rs) = (Some False, ev)"
    by simp_all
  from resize_video_stopped [OF chk ask]
  show "resize_video w P h v rs od
        = (Some \<lparr>isError = True, content = ''Permission denied by user''\<rparr>, tr @ ev)"
    by (simp add: permission_denied_def error_result_def)
  from check_arguments_Inr [OF chk] askPermission_execs [OF ask]
  show "execs (tr @ ev) = []" by simp
next
  assume a: "check_arguments w P h v od = Inr (a, d, tr)
        \<and> askPermission w (h @ tr) (extract_permission_message P a f) = (Some False, ev)"
  then have chk: "check_arguments w P h v od = Inr (a, d, tr)"
    and ask: "askPermission w (h @ tr) (extract_permission_message P a f) = (Some False, ev)"
    by simp_all
  from extract_audio_stopped [OF chk ask]
  show "extract_audio w P h v f od
        = (Some \<lparr>isError = True, content = ''Permission denied by user''\<rparr>, tr @ ev)"
    by (simp add: permission_denied_def error_result_def)
  from check_arguments_Inr [OF chk] askPermission_execs [OF ask]
  show "execs (tr @ ev) = []" by simp
next
  assume a: "fs_access w h (resolve P v)
        \<and> askPermission w (h @ [FsAccess (resolve P v)]) (info_permission_message P (resolve P v))
            = (Some False, ev)"
  then have acc: "fs_access w h (resolve P v)"
    and ask: "askPermission w (h @ [FsAccess (resolve P v)]) (info_permission_message P (resolve P v))
            = (Some False, ev)"
    by simp_all
  from get_video_info_stopped [OF acc ask]
  show "get_video_info w P h v
        = (Some \<lparr>isError = True, content = ''Permission denied by user''\<rparr>, FsAccess (resolve P v) # ev)"
    by (simp add: permission_denied_def error_result_def)
  from askPermission_execs [OF ask]
  show "execs (FsAccess (resolve P v) # ev) = []" by simp
next
  show "fst (askPermission w h m) = Some True \<longleftrightarrow>
        (env w ''DISABLE_NOTIFICATIONS'' = Some ''true''
         \<or> (\<exists>r. notify w h m = Some r \<and> \<not> truthy (nr_err r)
               \<and> js_or (case nr_metadata r of None \<Rightarrow> None | Some x \<Rightarrow> x) (nr_response r) \<noteq> Some ''Deny''))"
    by (rule askPermission_True_iff)
qed

theorem gate_before_commands_witness:
  "execs (snd (resize_video (sample_world None (Some allow_reply) all_exec) (posix ''/srv'') []
       ''/videos/clip.avi'' [''360p''] (Some ''/out''))) \<noteq> []
   \<and> gate_passed (sample_world None (Some allow_reply) all_exec) [] ''Resize video clip.avi to 360p''
       [FsAccess ''/videos/clip.avi'', FsAccessW ''/out'']
       (snd (resize_video (sample_world None (Some allow_reply) all_exec) (posix ''/srv'') []
          ''/videos/clip.avi'' [''360p''] (Some ''/out'')))
   \<and> execs (snd (extract_audio (sample_world None (Some allow_reply) all_exec) (posix ''/srv'') []
       ''/videos/clip.avi'' ''mp3'' (Some ''/out''))) \<noteq> []
   \<and> gate_passed (sample_world None (Some allow_reply) all_exec) [] ''Extract mp3 audio from video clip.avi''
       [FsAccess ''/videos/clip.avi'', FsAccessW ''/out'']
       (snd (extract_audio (sample_world None (Some allow_reply) all_exec) (posix ''/srv'') []
          ''/videos/clip.avi'' ''mp3'' (Some ''/out'')))
   \<and> execs (snd (get_video_info (sample_world None (Some allow_reply) all_exec) (posix ''/srv'') []
       ''/videos/clip.avi'')) \<noteq> []
   \<and> gate_passed (sample_world None (Some allow_reply) all_exec) [] ''Analyze video file clip.avi''
       [FsAccess ''/videos/clip.avi'']
       (snd (get_video_info (sample_world None (Some allow_reply) all_exec) (posix ''/srv'') []
          ''/videos/clip.avi''))
   \<and> check_arguments (sample_world None (Some deny_reply) all_exec) (posix ''/srv'') []
        ''/videos/clip.avi'' (Some ''/out'')
      = Inr (''/videos/clip.avi'', ''/out'', [FsAccess ''/videos/clip.avi'', FsAccessW ''/out''])
   \<and> askPermission (sample_world None (Some deny_reply) all_exec)
        [FsAccess ''/videos/clip.avi'', FsAccessW ''/out''] ''Resize video clip.avi to 360p''
      = (Some False, [Notify ''Resize video clip.avi to 360p''])
   \<and> resize_video (sample_world None (Some deny_reply) all_exec) (posix ''/srv'') []
        ''/videos/clip.avi'' [''360p''] (Some ''/out'')
      = (Some \<lparr>isError = True, content = ''Permission denied by user''\<rparr>,
         [FsAccess ''/videos/clip.avi'', FsAccessW ''/out'', Notify ''Resize video clip.avi to 360p''])
   \<and> extract_audio (sample_world None (Some deny_reply) all_exec) (posix ''/srv'') []
        ''/videos/clip.avi'' ''mp3'' (Some ''/out'')
      = (Some \<lparr>isError = True, content = ''Permission denied by user''\<rparr>,
         [FsAccess ''/videos/clip.avi'', FsAccessW ''/out'', Notify ''Extract mp3 audio from video clip.avi''])
   \<and> get_video_info (sample_world None (Some deny_reply) all_exec) (posix ''/srv'') [] ''/videos/clip.avi''
      = (Some \<lparr>isError = True, content = ''Permission denied by user''\<rparr>,
         [FsAccess ''/videos/clip.avi'', Notify ''Analyze video file clip.avi''])
   \<and> fst (askPermission (sample_world None (Some timeout_reply) all_exec) [] ''Analyze video file clip.avi'')
      = Some True"
  using gate_before_commands [of "sample_world None (Some allow_reply) all_exec" "posix ''/srv''" "[]"
      "''/videos/clip.avi''" "[''360p'']" "Some ''/out''" "''mp3''"]
    gate_before_commands [of "sample_world None (Some deny_reply) all_exec" "posix ''/srv''" "[]"
      "''/videos/clip.avi''" "[''360p'']" "Some ''/out''" "''mp3''"
      "''/videos/clip.avi''" "''/out''" "[FsAccess ''/videos/clip.avi'', FsAccessW ''/out'']"
      "[Notify ''Resize video clip.avi to 360p'']"]
    gate_before_commands [of "sample_world None (Some deny_reply) all_exec" "posix ''/srv''" "[]"
      "''/videos/clip.avi''" "[''360p'']" "Some ''/out''" "''mp3''"
      "''/videos/clip.avi''" "''/out''" "[FsAccess ''/videos/clip.avi'', FsAccessW ''/out'']"
      "[Notify ''Extract mp3 audio from video clip.avi'']"]
    gate_before_commands [of "sample_world None (Some deny_reply) all_exec" "posix ''/srv''" "[]"
      "''/videos/clip.avi''" "[''360p'']" "Some ''/out''" "''mp3''"
      "''/videos/clip.avi''" "''/out''" "[FsAccess ''/videos/clip.avi'', FsAccessW ''/out'']"
      "[Notify ''Analyze video file clip.avi'']"]
  by (simp add: sample_resize_run sample_extract_run sample_info_run sample_check sample_ask
      sample_messages sample_paths sample_access RESOLUTION_keys_def RESOLUTIONS_def)

subsection \<open>The command lines\<close>

text \<open>
  C2. The server only builds command lines for the external binary. Once the checks
  and the permission gate are passed, resize-video runs, for each requested resolution in turn,
  exactly the ffmpeg command of the specification, with the scale taken from its fixed
  table; extract-audio runs exactly one ffmpeg command, whose codec is a function of the
  requested format alone.
\<close>

theorem commands_constructed:
  "(check_arguments w P h v od = Inr (a, d, tr)
      \<and> askPermission w (h @ tr) (resize_permission_message P a rs) = (Some True, ev)
      \<and> set rs \<subseteq> set RESOLUTION_keys \<longrightarrow>
    execs (snd (resize_video w P h v rs od))
      = map (\<lambda>r. spec_resize_command a r (resize_outputPath P a d r)) rs)
   \<and> (check_arguments w P h v od = Inr (a, d, tr)
      \<and> askPermission w (h @ tr) (extract_permission_message P a f) = (Some True, ev) \<longrightarrow>
    execs (snd (extract_audio w P h v f od))
      = [spec_extract_command a (audioCodec f) (extract_outputPath P a d f)])
   \<and> RESOLUTION_keys = [''360p'', ''480p'', ''720p'', ''1080p'']
   \<and> map audioCodec validFormats = [''libmp3lame'', ''aac'', ''pcm_s16le'', ''libvorbis'']"
proof (intro conjI impI)
  assume a: "check_arguments w P h v od = Inr (a, d, tr)
      \<and> askPermission w (h @ tr) (resize_permission_message P a rs) = (Some True, ev)
      \<and> set rs \<subseteq> set RESOLUTION_keys"
  then have chk: "check_arguments w P h v od = Inr (a, d, tr)"
    and ask: "askPermission w (h @ tr) (resize_permission_message P a rs) = (Some True, ev)"
    and valid: "set rs \<subseteq> set RESOLUTION_keys"
    by simp_all
  from resize_video_valid [OF chk ask valid] obtain results where
    run: "resize_video w P h v rs od
      = (Some (ok_result (resize_report results)), tr @ ev @ map Exec (commands_for P a d rs))"
    by blast
  from check_arguments_Inr [OF chk] have "execs tr = []" by simp
  moreover from askPermission_execs [OF ask] have "execs ev = []" .
  ultimately have "execs (snd (resize_video w P h v rs od)) = commands_for P a d rs"
    using run by simp
  then show "execs (snd (resize_video w P h v rs od))
      = map (\<lambda>r. spec_resize_command a r (resize_outputPath P a d r)) rs"
    by (simp add: commands_for_def)
next
  assume a: "check_arguments w P h v od = Inr (a, d, tr)
      \<and> askPermission w (h @ tr) (extract_permission_message P a f) = (Some True, ev)"
  then have chk: "check_arguments w P h v od = Inr (a, d, tr)"
    and ask: "askPermission w (h @ tr) (extract_permission_message P a f) = (Some True, ev)"
    by simp_all
  from extract_audio_permitted [OF chk ask] check_arguments_Inr [OF chk] askPermission_execs [OF ask]
  show "execs (snd (extract_audio w P h v f od))
      = [spec_extract_command a (audioCodec f) (extract_outputPath P a d f)]"
    by simp
next
  show "RESOLUTION_keys = [''360p'', ''480p'', ''720p'', ''1080p'']"
    by (simp add: RESOLUTION_keys_def RESOLUTIONS_def)
  show "map audioCodec validFormats = [''libmp3lame'', ''aac'', ''pcm_s16le'', ''libvorbis'']"
    by (simp add: audioCodec_def validFormats_def)
qed

theorem commands_constructed_witness:
  "check_arguments (sample_world None (Some allow_reply) all_exec) (posix ''/srv'') []
        ''/videos/clip.avi'' (Some ''/out'')
      = Inr (''/videos/clip.avi'', ''/out'', [FsAccess ''/videos/clip.avi'', FsAccessW ''/out''])
   \<and> askPermission (sample_world None (Some allow_reply) all_exec)
        [FsAccess ''/videos/clip.avi'', FsAccessW ''/out'']
        (resize_permission_message (posix ''/srv'') ''/videos/clip.avi'' [''360p'', ''1080p''])
      = (Some True, [Notify ''Resize video clip.avi to 360p, 1080p''])
   \<and> set [''360p'', ''1080p''] \<subseteq> set RESOLUTION_keys
   \<and> execs (snd (resize_video (sample_world None (Some allow_reply) all_exec) (posix ''/srv'') []
        ''/videos/clip.avi'' [''360p'', ''1080p''] (Some ''/out'')))
      = [spec_resize_command ''/videos/clip.avi'' ''360p'' ''/out/clip_360p.avi'',
         spec_resize_command ''/videos/clip.avi'' ''1080p'' ''/out/clip_1080p.avi'']
   \<and> askPermission (sample_world None (Some allow_reply) all_exec)
        [FsAccess ''/videos/clip.avi'', FsAccessW ''/out'']
        (extract_permission_message (posix ''/srv'') ''/videos/clip.avi'' ''ogg'')
      = (Some True, [Notify ''Extract ogg audio from video clip.avi''])
   \<and> execs (snd (extract_audio (sample_world None (Some allow_reply) all_exec) (posix ''/srv'') []
        ''/videos/clip.avi'' ''ogg'' (Some ''/out'')))
      = [spec_extract_command ''/videos/clip.avi'' ''libvorbis'' ''/out/clip.ogg'']"
proof -
  have "execs (snd (resize_video (sample_world None (Some allow_reply) all_exec) (posix ''/srv'') []
        ''/videos/clip.avi'' [''360p'', ''1080p''] (Some ''/out'')))
      = [spec_resize_command ''/videos/clip.avi'' ''360p'' ''/out/clip_360p.avi'',
         spec_resize_command ''/videos/clip.avi'' ''1080p'' ''/out/clip_1080p.avi'']"
    using commands_constructed [of "sample_world None (Some allow_reply) all_exec" "posix ''/srv''" "[]"
      "''/videos/clip.avi''" "Some ''/out''" "''/videos/clip.avi''" "''/out''"
      "[FsAccess ''/videos/clip.avi'', FsAccessW ''/out'']" "[''360p'', ''1080p'']"
      "[Notify ''Resize video clip.avi to 360p, 1080p'']" "''ogg''"]
    by (simp add: sample_check sample_ask sample_messages sample_outputs RESOLUTION_keys_def
        RESOLUTIONS_def)
  moreover
  have "execs (snd (extract_audio (sample_world None (Some allow_reply) all_exec) (posix ''/srv'') []
        ''/videos/clip.avi'' ''ogg'' (Some ''/out'')))
      = [spec_extract_command ''/videos/clip.avi'' ''libvorbis'' ''/out/clip.ogg'']"
    using commands_constructed [of "sample_world None (Some allow_reply) all_exec" "posix ''/srv''" "[]"
      "''/videos/clip.avi''" "Some ''/out''" "''/videos/clip.avi''" "''/out''"
      "[FsAccess ''/videos/clip.avi'', FsAccessW ''/out'']" "[''360p'', ''1080p'']"
      "[Notify ''Extract ogg audio from video clip.avi'']" "''ogg''"]
    by (simp add: sample_check sample_ask sample_messages sample_outputs audioCodec_def)
  ultimately show ?thesis
    by (simp add: sample_check sample_ask sample_messages RESOLUTION_keys_def RESOLUTIONS_def)
qed

subsection \<open>The operations of the two front-ends\<close>

text \<open>
  C3, the claim as it is written, fails: no route of the HTTP API reports media
  metadata.
\<close>

theorem http_metadata_counterexample:
  "MediaInfo \<notin> snd ` snd ` set http_routes"
  by (simp add: http_routes_def)

text \<open>
  C3, amended. The MCP server registers a tool for each of the three operations:
  resize-video, extract-audio and get-video-info. The HTTP API has a route for two of
  them only, \<^verbatim>\<open>POST /api/resize\<close> and \<^verbatim>\<open>POST /api/extract-audio\<close>; no request is
  routed to a report of media metadata.
\<close>

theorem frontends_operations:
  "tool_of ''resize-video'' = Some ResizeVideo
   \<and> tool_of ''extract-audio'' = Some ExtractAudio
   \<and> tool_of ''get-video-info'' = Some MediaInfo
   \<and> route_of ''POST'' ''/api/resize'' = Some ResizeVideo
   \<and> route_of ''POST'' ''/api/extract-audio'' = Some ExtractAudio
   \<and> (\<forall>method path. route_of method path \<noteq> Some MediaInfo)
   \<and> snd ` snd ` set http_routes = {ResizeVideo, ExtractAudio}"
  by (auto simp: tool_of_def mcp_tools_def route_of_def http_routes_def)

subsection \<open>The order of the argument checks\<close>

text \<open>
  C4. resize-video and extract-audio check their arguments in a fixed order. When the
  resolved input file is not accessible, the tool returns the error ``Video file not
  found'' and its only action was that one access check. Otherwise, when the output
  directory is not writable, it returns the error ``Output directory ... does not exist
  or is not writable'', having at most created the default directory: no notification
  was shown and no command was run.
\<close>

theorem validation_order:
  "(\<not> fs_access w h (resolve P v) \<longrightarrow>
      resize_video w P h v rs od
        = (Some \<lparr>isError = True, content = ''Error: Video file not found at '' @ resolve P v\<rparr>,
           [FsAccess (resolve P v)])
      \<and> extract_audio w P h v f od
        = (Some \<lparr>isError = True, content = ''Error: Video file not found at '' @ resolve P v\<rparr>,
           [FsAccess (resolve P v)]))
   \<and> (fs_access w h (resolve P v)
        \<and> output_directory w P (h @ [FsAccess (resolve P v)]) od = (d, ev)
        \<and> \<not> fs_access_w w (h @ FsAccess (resolve P v) # ev) d \<longrightarrow>
      resize_video w P h v rs od
        = (Some \<lparr>isError = True,
                  content = ''Error: Output directory '' @ d @ '' does not exist or is not writable''\<rparr>,
           FsAccess (resolve P v) # ev @ [FsAccessW d])
      \<and> extract_audio w P h v f od
        = (Some \<lparr>isError = True,
                  content = ''Error: Output directory '' @ d @ '' does not exist or is not writable''\<rparr>,
           FsAccess (resolve P v) # ev @ [FsAccessW d])
      \<and> notifications ev = [] \<and> execs ev = [])"
proof (intro conjI impI)
  assume "\<not> fs_access w h (resolve P v)"
  then have chk: "check_arguments w P h v od
      = Inl (video_not_found (resolve P v), [FsAccess (resolve P v)])"
    by (simp add: check_arguments_def Let_def)
  from chk show "resize_video w P h v rs od
        = (Some \<lparr>isError = True, content = ''Error: Video file not found at '' @ resolve P v\<rparr>,
           [FsAccess (resolve P v)])"
    by (simp add: resize_video_def video_not_found_def error_result_def)
  from chk show "extract_audio w P h v f od
        = (Some \<lparr>isError = True, content = ''Error: Video file not found at '' @ resolve P v\<rparr>,
           [FsAccess (resolve P v)])"
    by (simp add: extract_audio_def video_not_found_def error_result_def)
next
  assume a: "fs_access w h (resolve P v)
        \<and> output_directory w P (h @ [FsAccess (resolve P v)]) od = (d, ev)
        \<and> \<not> fs_access_w w (h @ FsAccess (resolve P v) # ev) d"
  then have chk: "check_arguments w P h v od
      = Inl (dir_not_writable d, FsAccess (resolve P v) # ev @ [FsAccessW d])"
    by (simp add: check_arguments_def Let_def)
  from chk show "resize_video w P h v rs od
        = (Some \<lparr>isError = True,
                  content = ''Error: Output directory '' @ d @ '' does not exist or is not writable''\<rparr>,
           FsAccess (resolve P v) # ev @ [FsAccessW d])"
    by (simp add: resize_video_def dir_not_writable_def error_result_def)
  from chk show "extract_audio w P h v f od
        = (Some \<lparr>isError = True,
                  content = ''Error: Output directory '' @ d @ '' does not exist or is not writable''\<rparr>,
           FsAccess (resolve P v) # ev @ [FsAccessW d])"
    by (simp add: extract_audio_def dir_not_writable_def error_result_def)
  from a output_directory_quiet [of w P "h @ [FsAccess (resolve P v)]" od d ev]
  show "notifications ev = []" and "execs ev = []" by simp_all
qed

theorem validation_order_witness:
  "\<not> fs_access (sample_world None (Some allow_reply) all_exec) [] (resolve (posix ''/srv'') ''missing.mp4'')
   \<and> resize_video (sample_world None (Some allow_reply) all_exec) (posix ''/srv'') [] ''missing.mp4''
        [''360p''] (Some ''/readonly'')
      = (Some \<lparr>isError = True, content = ''Error: Video file not found at /srv/missing.mp4''\<rparr>,
         [FsAccess ''/srv/missing.mp4''])
   \<and> fs_access (sample_world None (Some allow_reply) all_exec) [] (resolve (posix ''/srv'') ''/videos/clip.avi'')
   \<and> output_directory (sample_world None (Some allow_reply) all_exec) (posix ''/srv'')
        [FsAccess ''/videos/clip.avi''] (Some ''/readonly'') = (''/readonly'', [])
   \<and> \<not> fs_access_w (sample_world None (Some allow_reply) all_exec) [FsAccess ''/videos/clip.avi''] ''/readonly''
   \<and> extract_audio (sample_world None (Some allow_reply) all_exec) (posix ''/srv'') [] ''/videos/clip.avi''
        ''mp3'' (Some ''/readonly'')
      = (Some \<lparr>isError = True,
                content = ''Error: Output directory /readonly does not exist or is not writable''\<rparr>,
         [FsAccess ''/videos/clip.avi'', FsAccessW ''/readonly''])"
  using validation_order [of "sample_world None (Some allow_reply) all_exec" "[]" "posix ''/srv''"
      "''missing.mp4''" "[''360p'']" "Some ''/readonly''" "''mp3''" "''/readonly''" "[]"]
    validation_order [of "sample_world None (Some allow_reply) all_exec" "[]" "posix ''/srv''"
      "''/videos/clip.avi''" "[''360p'']" "Some ''/readonly''" "''mp3''" "''/readonly''" "[]"]
  by (simp add: sample_world_def posix_def posix_resolve_def output_directory_def)

subsection \<open>The permission gate can be switched off\<close>

text \<open>
  C5. The permission gate is optional. With \<^verbatim>\<open>DISABLE_NOTIFICATIONS\<close> equal to
  \<^verbatim>\<open>'true'\<close>, \<open>askPermission\<close> returns true for every action and shows no
  notification; each of the three gated tools then returns a result that is not the
  denial, without any notification, and runs its commands whenever its checks pass, as
  it does after an approval. Otherwise exactly one notification is shown, the permission
  gate returns nothing as long as the callback does not fire, and it resolves false when
  the notifier reports an error (a truthy \<^verbatim>\<open>err\<close>).
\<close>

theorem permission_gate_optional:
  "(env w ''DISABLE_NOTIFICATIONS'' = Some ''true'' \<longrightarrow>
      fst (askPermission w h action) = Some True
      \<and> notifications (snd (askPermission w h action)) = []
      \<and> fst (resize_video w P h v rs od) \<noteq> None
      \<and> fst (resize_video w P h v rs od) \<noteq> Some permission_denied
      \<and> notifications (snd (resize_video w P h v rs od)) = []
      \<and> fst (extract_audio w P h v f od) \<noteq> None
      \<and> fst (extract_audio w P h v f od) \<noteq> Some permission_denied
      \<and> notifications (snd (extract_audio w P h v f od)) = []
      \<and> fst (get_video_info w P h v) \<noteq> None
      \<and> fst (get_video_info w P h v) \<noteq> Some permission_denied
      \<and> notifications (snd (get_video_info w P h v)) = []
      \<and> (check_arguments w P h v od = Inr (a, d, tr) \<and> set rs \<subseteq> set RESOLUTION_keys \<longrightarrow>
            execs (snd (resize_video w P h v rs od)) = commands_for P a d rs)
      \<and> (check_arguments w P h v od = Inr (a, d, tr) \<longrightarrow>
            execs (snd (extract_audio w P h v f od))
              = [spec_extract_command a (audioCodec f) (extract_outputPath P a d f)])
      \<and> (fs_access w h (resolve P v) \<longrightarrow>
            execs (snd (get_video_info w P h v)) = [info_command (resolve P v)]))
   \<and> (env w ''DISABLE_NOTIFICATIONS'' \<noteq> Some ''true'' \<longrightarrow>
      notifications (snd (askPermission w h action)) = [action]
      \<and> (fst (askPermission w h action) = None \<longleftrightarrow> notify w h action = None)
      \<and> (\<forall>r. notify w h action = Some r \<and> truthy (nr_err r)
            \<longrightarrow> fst (askPermission w h action) = Some False))"
proof (intro conjI impI)
  assume off: "env w ''DISABLE_NOTIFICATIONS'' = Some ''true''"
  from askPermission_disabled [OF off, of h action]
  show "fst (askPermission w h action) = Some True"
    and "notifications (snd (askPermission w h action)) = []"
    by simp_all
  from resize_video_disabled [OF off, of P h v rs od]
  show "fst (resize_video w P h v rs od) \<noteq> None"
    and "fst (resize_video w P h v rs od) \<noteq> Some permission_denied"
    and "notifications (snd (resize_video w P h v rs od)) = []"
    by simp_all
  from extract_audio_disabled [OF off, of P h v f od]
  show "fst (extract_audio w P h v f od) \<noteq> None"
    and "fst (extract_audio w P h v f od) \<noteq> Some permission_denied"
    and "notifications (snd (extract_audio w P h v f od)) = []"
    by simp_all
  from get_video_info_disabled [OF off, of P h v]
  show "fst (get_video_info w P h v) \<noteq> None"
    and "fst (get_video_info w P h v) \<noteq> Some permission_denied"
    and "notifications (snd (get_video_info w P h v)) = []"
    by simp_all
next
  assume off: "env w ''DISABLE_NOTIFICATIONS'' = Some ''true''"
    and a: "check_arguments w P h v od = Inr (a, d, tr) \<and> set rs \<subseteq> set RESOLUTION_keys"
  from a have chk: "check_arguments w P h v od = Inr (a, d, tr)"
    and valid: "set rs \<subseteq> set RESOLUTION_keys"
    by simp_all
  obtain ev where ask: "askPermission w (h @ tr) (resize_permission_message P a rs) = (Some True, ev)"
    using askPermission_disabled [OF off] by simp
  from resize_video_valid [OF chk ask valid] obtain results where
    "resize_video w P h v rs od
      = (Some (ok_result (resize_report results)), tr @ ev @ map Exec (commands_for P a d rs))"
    by blast
  with check_arguments_Inr [OF chk] askPermission_execs [OF ask]
  show "execs (snd (resize_video w P h v rs od)) = commands_for P a d rs"
    by simp
next
  assume off: "env w ''DISABLE_NOTIFICATIONS'' = Some ''true''"
    and chk: "check_arguments w P h v od = Inr (a, d, tr)"
  obtain ev where ask: "askPermission w (h @ tr) (extract_permission_message P a f) = (Some True, ev)"
    using askPermission_disabled [OF off] by simp
  from extract_audio_permitted [OF chk ask] check_arguments_Inr [OF chk] askPermission_execs [OF ask]
  show "execs (snd (extract_audio w P h v f od))
      = [spec_extract_command a (audioCodec f) (extract_outputPath P a d f)]"
    by simp
next
  assume off: "env w ''DISABLE_NOTIFICATIONS'' = Some ''true''"
    and acc: "fs_access w h (resolve P v)"
  obtain ev where ask: "askPermission w (h @ [FsAccess (resolve P v)])
      (info_permission_message P (resolve P v)) = (Some True, ev)"
    using askPermission_disabled [OF off] by simp
  from get_video_info_permitted [OF acc ask] askPermission_execs [OF ask]
  show "execs (snd (get_video_info w P h v)) = [info_command (resolve P v)]"
    by simp
next
  assume on: "env w ''DISABLE_NOTIFICATIONS'' \<noteq> Some ''true''"
  then show "notifications (snd (askPermission w h action)) = [action]"
    by (simp add: askPermission_def Let_def split: option.splits)
  from on show "fst (askPermission w h action) = None \<longleftrightarrow> notify w h action = None"
    by (auto simp: askPermission_def Let_def split: option.splits)
  from on show "\<forall>r. notify w h action = Some r \<and> truthy (nr_err r)
      \<longrightarrow> fst (askPermission w h action) = Some False"
    by (simp add: askPermission_def)
qed

theorem permission_gate_optional_witness:
  "env (sample_world (Some ''true'') None all_exec) ''DISABLE_NOTIFICATIONS'' = Some ''true''
   \<and> fst (askPermission (sample_world (Some ''true'') None all_exec) [] ''Analyze video file clip.avi'') = Some True
   \<and> fs_access (sample_world (Some ''true'') None all_exec) [] (resolve (posix ''/srv'') ''/videos/clip.avi'')
   \<and> notifications (snd (get_video_info (sample_world (Some ''true'') None all_exec) (posix ''/srv'') []
        ''/videos/clip.avi'')) = []
   \<and> execs (snd (get_video_info (sample_world (Some ''true'') None all_exec) (posix ''/srv'') []
        ''/videos/clip.avi'')) = [info_command ''/videos/clip.avi'']
   \<and> check_arguments (sample_world (Some ''true'') None all_exec) (posix ''/srv'') []
        ''/videos/clip.avi'' (Some ''/out'')
      = Inr (''/videos/clip.avi'', ''/out'', [FsAccess ''/videos/clip.avi'', FsAccessW ''/out''])
   \<and> set [''360p''] \<subseteq> set RESOLUTION_keys
   \<and> execs (snd (resize_video (sample_world (Some ''true'') None all_exec) (posix ''/srv'') []
        ''/videos/clip.avi'' [''360p''] (Some ''/out'')))
      = [spec_resize_command ''/videos/clip.avi'' ''360p'' ''/out/clip_360p.avi'']
   \<and> execs (snd (extract_audio (sample_world (Some ''true'') None all_exec) (posix ''/srv'') []
        ''/videos/clip.avi'' ''mp3'' (Some ''/out'')))
      = [spec_extract_command ''/videos/clip.avi'' ''libmp3lame'' ''/out/clip.mp3'']
   \<and> env (sample_world None (Some failed_reply) all_exec) ''DISABLE_NOTIFICATIONS'' \<noteq> Some ''true''
   \<and> notify (sample_world None (Some failed_reply) all_exec) [] ''Analyze video file clip.avi'' = Some failed_reply
   \<and> nr_err failed_reply = Some ''spawn ENOENT'' \<and> truthy (nr_err failed_reply)
   \<and> fst (askPermission (sample_world None (Some failed_reply) all_exec) [] ''Analyze video file clip.avi'') = Some False
   \<and> notifications (snd (askPermission (sample_world None (Some failed_reply) all_exec) []
        ''Analyze video file clip.avi'')) = [''Analyze video file clip.avi'']"
proof -
  let ?off = "sample_world (Some ''true'') None all_exec"
  let ?on = "sample_world None (Some failed_reply) all_exec"
  have env: "env ?off ''DISABLE_NOTIFICATIONS'' = Some ''true''"
    "env ?on ''DISABLE_NOTIFICATIONS'' \<noteq> Some ''true''"
    "notify ?on [] ''Analyze video file clip.avi'' = Some failed_reply"
    "nr_err failed_reply = Some ''spawn ENOENT''"
    by (simp_all add: sample_world_def failed_reply_def)
  note off = permission_gate_optional [of ?off "[]" "''Analyze video file clip.avi''" "posix ''/srv''"
      "''/videos/clip.avi''" "[''360p'']" "Some ''/out''" "''mp3''"
      "''/videos/clip.avi''" "''/out''" "[FsAccess ''/videos/clip.avi'', FsAccessW ''/out'']"]
  note on = permission_gate_optional [of ?on "[]" "''Analyze video file clip.avi''" "posix ''/srv''"
      "''/videos/clip.avi''" "[''360p'']" "Some ''/out''" "''mp3''"
      "''/videos/clip.avi''" "''/out''" "[FsAccess ''/videos/clip.avi'', FsAccessW ''/out'']"]
  have keys: "set [''360p''] \<subseteq> set RESOLUTION_keys"
    by (simp add: RESOLUTION_keys_def RESOLUTIONS_def)
  from off env(1) keys
  have "fst (askPermission ?off [] ''Analyze video file clip.avi'') = Some True"
    and "notifications (snd (get_video_info ?off (posix ''/srv'') [] ''/videos/clip.avi'')) = []"
    and "execs (snd (get_video_info ?off (posix ''/srv'') [] ''/videos/clip.avi''))
          = [info_command ''/videos/clip.avi'']"
    and "execs (snd (resize_video ?off (posix ''/srv'') [] ''/videos/clip.avi'' [''360p''] (Some ''/out'')))
          = [spec_resize_command ''/videos/clip.avi'' ''360p'' ''/out/clip_360p.avi'']"
    and "execs (snd (extract_audio ?off (posix ''/srv'') [] ''/videos/clip.avi'' ''mp3'' (Some ''/out'')))
          = [spec_extract_command ''/videos/clip.avi'' ''libmp3lame'' ''/out/clip.mp3'']"
    by (simp_all add: sample_check sample_access sample_paths sample_outputs commands_for_def
        audioCodec_def)
  moreover from on env(2,3,4)
  have "fst (askPermission ?on [] ''Analyze video file clip.avi'') = Some False"
    and "notifications (snd (askPermission ?on [] ''Analyze video file clip.avi''))
          = [''Analyze video file clip.avi'']"
    by simp_all
  ultimately show ?thesis
    using env keys by (simp add: sample_check sample_access sample_paths)
qed

subsection \<open>The two front-ends compared\<close>




subsection \<open>The report of resize-video\<close>

text \<open>
  C8, the claim as it is written, fails: the text does not hold exactly one line per
  requested resolution. On the sample machine, with 360p as the only requested
  resolution and a failing run, the text has five line feeds: two end the header and the
  blank line after it, and the report on the one resolution takes three lines, because
  the error message of the run is part of it.
\<close>

theorem one_line_per_resolution_counterexample:
  "resize_video (sample_world None (Some allow_reply) no_exec) (posix ''/srv'') []
       ''/videos/clip.avi'' [''360p''] (Some ''/out'')
     = (Some \<lparr>isError = False, content = failed_360p_report\<rparr>,
        [FsAccess ''/videos/clip.avi'', FsAccessW ''/out'', Notify ''Resize video clip.avi to 360p'',
         Exec (spec_resize_command ''/videos/clip.avi'' ''360p'' ''/out/clip_360p.avi'')])
   \<and> count_list failed_360p_report (CHR 0x0A) = 5"
proof -
  let ?w = "sample_world None (Some allow_reply) no_exec"
  let ?tr = "[FsAccess ''/videos/clip.avi'', FsAccessW ''/out'']"
  let ?ev = "[Notify ''Resize video clip.avi to 360p'']"
  have chk: "check_arguments ?w (posix ''/srv'') [] ''/videos/clip.avi'' (Some ''/out'')
      = Inr (''/videos/clip.avi'', ''/out'', ?tr)"
    by (rule sample_check)
  have ask: "askPermission ?w ([] @ ?tr)
      (resize_permission_message (posix ''/srv'') ''/videos/clip.avi'' [''360p'']) = (Some True, ?ev)"
    by (simp add: sample_ask sample_messages)
  have valid: "set [''360p''] \<subseteq> set RESOLUTION_keys"
    by (simp add: RESOLUTION_keys_def RESOLUTIONS_def)
  have body: "spec_report (report_rows ?w (posix ''/srv'') ([] @ ?tr @ ?ev) ''/videos/clip.avi'' ''/out'' [''360p''])
      = failed_360p_report"
    by (simp add: spec_report_def spec_entry_def succeeded_def sample_outputs sample_fate
        no_exec_def program_name show_nat_small failed_360p_report_def Let_def)
  have lines: "count_list failed_360p_report (CHR 0x0A) = 5"
    by (simp add: failed_360p_report_def spec_resize_command_def spec_scale_def)
  from resize_video_text [OF chk ask valid] body lines show ?thesis
    by (simp add: commands_for_def sample_outputs)
qed

text \<open>
  C8, amended. Once the checks and the permission gate are passed, resize-video runs one
  ffmpeg command per requested resolution, in request order, whatever the earlier runs
  did. The returned text is the header \<^verbatim>\<open>Processed n resolutions (s successful, f
  failed)\<close> and a blank line, followed by exactly one entry per requested resolution, in
  request order, each ended by a line feed: the check mark, the resolution and the
  output path when its own run succeeded, the cross mark, the resolution and the error
  message of its own run when it failed (the message may itself span several lines).
  \<open>s\<close> and \<open>f\<close> count the runs that succeeded and failed and add up to the number of
  requested resolutions, and the result is not marked as an error, even when every run
  failed.
\<close>

theorem resize_video_report:
  assumes "check_arguments w P h v od = Inr (a, d, tr)"
    and "askPermission w (h @ tr) (resize_permission_message P a rs) = (Some True, ev)"
    and "set rs \<subseteq> set RESOLUTION_keys"
  shows "resize_video w P h v rs od
        = (Some \<lparr>isError = False, content = spec_report (report_rows w P (h @ tr @ ev) a d rs)\<rparr>,
           tr @ ev @ map Exec (commands_for P a d rs))
      \<and> map fst (report_rows w P (h @ tr @ ev) a d rs) = rs
      \<and> length (filter succeeded (report_rows w P (h @ tr @ ev) a d rs))
          + length (filter (\<lambda>row. \<not> succeeded row) (report_rows w P (h @ tr @ ev) a d rs))
        = length rs"
proof -
  have "length (filter succeeded (report_rows w P (h @ tr @ ev) a d rs))
          + length (filter (\<lambda>row. \<not> succeeded row) (report_rows w P (h @ tr @ ev) a d rs))
        = length (report_rows w P (h @ tr @ ev) a d rs)"
    by (rule sum_length_filter_compl)
  also have "\<dots> = length rs"
    using report_rows_fst [of w P "h @ tr @ ev" a d rs] by (metis length_map)
  finally show ?thesis
    using resize_video_text [OF assms] report_rows_fst [of w P "h @ tr @ ev" a d rs] by simp
qed

text \<open>
  A run for 720p and 360p in which only the 720p command fails: both commands were
  run, the text reports the failure first and the success second, and the result is not
  an error.
\<close>

theorem resize_video_report_witness:
  "check_arguments (sample_world None (Some allow_reply) only_720p_fails) (posix ''/srv'') []
        ''/videos/clip.avi'' (Some ''/out'')
      = Inr (''/videos/clip.avi'', ''/out'', [FsAccess ''/videos/clip.avi'', FsAccessW ''/out''])
   \<and> askPermission (sample_world None (Some allow_reply) only_720p_fails)
        [FsAccess ''/videos/clip.avi'', FsAccessW ''/out'']
        (resize_permission_message (posix ''/srv'') ''/videos/clip.avi'' [''720p'', ''360p''])
      = (Some True, [Notify ''Resize video clip.avi to 720p, 360p''])
   \<and> set [''720p'', ''360p''] \<subseteq> set RESOLUTION_keys
   \<and> resize_video (sample_world None (Some allow_reply) only_720p_fails) (posix ''/srv'') []
        ''/videos/clip.avi'' [''720p'', ''360p''] (Some ''/out'')
      = (Some \<lparr>isError = False,
                content = ''Processed 2 resolutions (1 successful, 1 failed)'' @ [CHR 0x0A, CHR 0x0A]
                  @ [CHR 0xE2, CHR 0x9D, CHR 0x8C] @ '' 720p: Failed - Command failed: ''
                  @ spec_resize_command ''/videos/clip.avi'' ''720p'' ''/out/clip_720p.avi'' @ [CHR 0x0A]
                  @ ''/bin/sh: 1: ffmpeg: not found'' @ [CHR 0x0A] @ [CHR 0x0A]
                  @ [CHR 0xE2, CHR 0x9C, CHR 0x85] @ '' 360p: /out/clip_360p.avi'' @ [CHR 0x0A]\<rparr>,
         [FsAccess ''/videos/clip.avi'', FsAccessW ''/out'',
          Notify ''Resize video clip.avi to 720p, 360p'',
          Exec (spec_resize_command ''/videos/clip.avi'' ''720p'' ''/out/clip_720p.avi''),
          Exec (spec_resize_command ''/videos/clip.avi'' ''360p'' ''/out/clip_360p.avi'')])"
proof -
  let ?w = "sample_world None (Some allow_reply) only_720p_fails"
  let ?tr = "[FsAccess ''/videos/clip.avi'', FsAccessW ''/out'']"
  let ?ev = "[Notify ''Resize video clip.avi to 720p, 360p'']"
  have chk: "check_arguments ?w (posix ''/srv'') [] ''/videos/clip.avi'' (Some ''/out'')
      = Inr (''/videos/clip.avi'', ''/out'', ?tr)"
    by (rule sample_check)
  have ask: "askPermission ?w ([] @ ?tr)
      (resize_permission_message (posix ''/srv'') ''/videos/clip.avi'' [''720p'', ''360p'']) = (Some True, ?ev)"
    by (simp add: sample_ask sample_messages)
  have valid: "set [''720p'', ''360p''] \<subseteq> set RESOLUTION_keys"
    by (simp add: RESOLUTION_keys_def RESOLUTIONS_def)
  have fate: "only_720p_fails (spec_resize_command ''/videos/clip.avi'' ''720p'' ''/out/clip_720p.avi'')"
    "\<not> only_720p_fails (spec_resize_command ''/videos/clip.avi'' ''360p'' ''/out/clip_360p.avi'')"
    by (simp_all add: only_720p_fails_def spec_resize_command_def spec_scale_def)
  have body: "spec_report (report_rows ?w (posix ''/srv'') ([] @ ?tr @ ?ev) ''/videos/clip.avi'' ''/out''
        [''720p'', ''360p''])
      = ''Processed 2 resolutions (1 successful, 1 failed)'' @ [CHR 0x0A, CHR 0x0A]
          @ [CHR 0xE2, CHR 0x9D, CHR 0x8C] @ '' 720p: Failed - Command failed: ''
          @ spec_resize_command ''/videos/clip.avi'' ''720p'' ''/out/clip_720p.avi'' @ [CHR 0x0A]
          @ ''/bin/sh: 1: ffmpeg: not found'' @ [CHR 0x0A] @ [CHR 0x0A]
          @ [CHR 0xE2, CHR 0x9C, CHR 0x85] @ '' 360p: /out/clip_360p.avi'' @ [CHR 0x0A]"
    by (simp add: spec_report_def spec_entry_def succeeded_def sample_outputs sample_fate
        fate program_name show_nat_small Let_def)
  from resize_video_report [OF chk ask valid] body chk ask valid show ?thesis
    by (simp add: commands_for_def sample_outputs)
qed

subsection \<open>The default output directory\<close>

text \<open>
  C9. \<open>ensureDirectoriesExist\<close> always returns a directory: the directory
  \<^verbatim>\<open>ffmpeg-output\<close> under the temporary directory of the system when it could be
  created, and the temporary directory itself when it could not. Without an
  \<^verbatim>\<open>outputDir\<close> argument that directory is the output directory of resize-video and
  extract-audio: the output path in every command they run lies in it. A failure to
  create the default directory does not end the call: with a writable temporary
  directory the checks pass.
\<close>

theorem default_output_directory:
  "fst (ensureDirectoriesExist w P h)
     = (if fs_mkdir w h (join P [tmpdir w, ''ffmpeg-output'']) = None
        then join P [tmpdir w, ''ffmpeg-output''] else tmpdir w)
   \<and> (check_arguments w P h v None = Inr (a, d, tr) \<longrightarrow>
        d = fst (ensureDirectoriesExist w P (h @ [FsAccess (resolve P v)])))
   \<and> (check_arguments w P h v None = Inr (a, d, tr)
        \<and> askPermission w (h @ tr) (resize_permission_message P a rs) = (Some True, ev)
        \<and> set rs \<subseteq> set RESOLUTION_keys \<longrightarrow>
      execs (snd (resize_video w P h v rs None))
        = map (\<lambda>r. spec_resize_command a r
                 (join P [fst (ensureDirectoriesExist w P (h @ [FsAccess (resolve P v)])),
                          basename_ext P a (extname P a) @ ''_'' @ r @ extname P a])) rs)
   \<and> (check_arguments w P h v None = Inr (a, d, tr)
        \<and> askPermission w (h @ tr) (extract_permission_message P a f) = (Some True, ev) \<longrightarrow>
      execs (snd (extract_audio w P h v f None))
        = [spec_extract_command a (audioCodec f)
             (join P [fst (ensureDirectoriesExist w P (h @ [FsAccess (resolve P v)])),
                      basename_ext P a (extname P a) @ ''.'' @ f])])
   \<and> (fs_access w h (resolve P v)
        \<and> fs_mkdir w (h @ [FsAccess (resolve P v)]) (join P [tmpdir w, ''ffmpeg-output'']) = Some e
        \<and> fs_access_w w (h @ [FsAccess (resolve P v), FsMkdir (join P [tmpdir w, ''ffmpeg-output'']),
              ConsoleError (''Error creating output directory: '' @ e)]) (tmpdir w) \<longrightarrow>
      check_arguments w P h v None
        = Inr (resolve P v, tmpdir w,
               [FsAccess (resolve P v), FsMkdir (join P [tmpdir w, ''ffmpeg-output'']),
                ConsoleError (''Error creating output directory: '' @ e), FsAccessW (tmpdir w)]))"
proof (intro conjI impI)
  show "fst (ensureDirectoriesExist w P h)
     = (if fs_mkdir w h (join P [tmpdir w, ''ffmpeg-output'']) = None
        then join P [tmpdir w, ''ffmpeg-output''] else tmpdir w)"
    by (simp add: ensureDirectoriesExist_def Let_def split: option.splits)
next
  assume chk: "check_arguments w P h v None = Inr (a, d, tr)"
  from check_arguments_Inr [OF chk]
  show "d = fst (ensureDirectoriesExist w P (h @ [FsAccess (resolve P v)]))"
    by (auto simp: output_directory_def)
next
  assume a: "check_arguments w P h v None = Inr (a, d, tr)
        \<and> askPermission w (h @ tr) (resize_permission_message P a rs) = (Some True, ev)
        \<and> set rs \<subseteq> set RESOLUTION_keys"
  then have chk: "check_arguments w P h v None = Inr (a, d, tr)"
    and ask: "askPermission w (h @ tr) (resize_permission_message P a rs) = (Some True, ev)"
    and valid: "set rs \<subseteq> set RESOLUTION_keys"
    by simp_all
  from check_arguments_Inr [OF chk]
  have d: "d = fst (ensureDirectoriesExist w P (h @ [FsAccess (resolve P v)]))" and tr: "execs tr = []"
    by (auto simp: output_directory_def)
  from resize_video_valid [OF chk ask valid] obtain results where
    run: "resize_video w P h v rs None
      = (Some (ok_result (resize_report results)), tr @ ev @ map Exec (commands_for P a d rs))"
    by blast
  from askPermission_execs [OF ask] tr run
  have "execs (snd (resize_video w P h v rs None)) = commands_for P a d rs" by simp
  then show "execs (snd (resize_video w P h v rs None))
        = map (\<lambda>r. spec_resize_command a r
                 (join P [fst (ensureDirectoriesExist w P (h @ [FsAccess (resolve P v)])),
                          basename_ext P a (extname P a) @ ''_'' @ r @ extname P a])) rs"
    by (simp add: commands_for_def resize_outputPath_def Let_def d)
next
  assume a: "check_arguments w P h v None = Inr (a, d, tr)
        \<and> askPermission w (h @ tr) (extract_permission_message P a f) = (Some True, ev)"
  then have chk: "check_arguments w P h v None = Inr (a, d, tr)"
    and ask: "askPermission w (h @ tr) (extract_permission_message P a f) = (Some True, ev)"
    by simp_all
  from check_arguments_Inr [OF chk]
  have d: "d = fst (ensureDirectoriesExist w P (h @ [FsAccess (resolve P v)]))" and tr: "execs tr = []"
    by (auto simp: output_directory_def)
  from extract_audio_permitted [OF chk ask] askPermission_execs [OF ask] tr
  have "execs (snd (extract_audio w P h v f None))
      = [spec_extract_command a (audioCodec f) (extract_outputPath P a d f)]"
    by simp
  then show "execs (snd (extract_audio w P h v f None))
        = [spec_extract_command a (audioCodec f)
             (join P [fst (ensureDirectoriesExist w P (h @ [FsAccess (resolve P v)])),
                      basename_ext P a (extname P a) @ ''.'' @ f])]"
    by (simp add: extract_outputPath_def Let_def d)
next
  assume "fs_access w h (resolve P v)
        \<and> fs_mkdir w (h @ [FsAccess (resolve P v)]) (join P [tmpdir w, ''ffmpeg-output'']) = Some e
        \<and> fs_access_w w (h @ [FsAccess (resolve P v), FsMkdir (join P [tmpdir w, ''ffmpeg-output'']),
              ConsoleError (''Error creating output directory: '' @ e)]) (tmpdir w)"
  then show "check_arguments w P h v None
        = Inr (resolve P v, tmpdir w,
               [FsAccess (resolve P v), FsMkdir (join P [tmpdir w, ''ffmpeg-output'']),
                ConsoleError (''Error creating output directory: '' @ e), FsAccessW (tmpdir w)])"
    by (simp add: check_arguments_def output_directory_def ensureDirectoriesExist_def Let_def)
qed

theorem default_output_directory_witness:
  "check_arguments (sample_world None (Some allow_reply) all_exec) (posix ''/srv'') []
       ''/videos/clip.avi'' None
     = Inr (''/videos/clip.avi'', ''/tmp/ffmpeg-output'',
            [FsAccess ''/videos/clip.avi'', FsMkdir ''/tmp/ffmpeg-output'', FsAccessW ''/tmp/ffmpeg-output''])
   \<and> execs (snd (extract_audio (sample_world None (Some allow_reply) all_exec) (posix ''/srv'') []
        ''/videos/clip.avi'' ''mp3'' None))
     = [spec_extract_command ''/videos/clip.avi'' ''libmp3lame'' ''/tmp/ffmpeg-output/clip.mp3'']
   \<and> execs (snd (resize_video (sample_world None (Some allow_reply) all_exec) (posix ''/srv'') []
        ''/videos/clip.avi'' [''480p''] None))
     = [spec_resize_command ''/videos/clip.avi'' ''480p'' ''/tmp/ffmpeg-output/clip_480p.avi'']
   \<and> fs_mkdir (mkdir_fails_world (Some allow_reply) all_exec) [FsAccess ''/videos/clip.avi'']
        ''/tmp/ffmpeg-output'' = Some ''EACCES: permission denied''
   \<and> check_arguments (mkdir_fails_world (Some allow_reply) all_exec) (posix ''/srv'') []
       ''/videos/clip.avi'' None
     = Inr (''/videos/clip.avi'', ''/tmp'',
            [FsAccess ''/videos/clip.avi'', FsMkdir ''/tmp/ffmpeg-output'',
             ConsoleError ''Error creating output directory: EACCES: permission denied'',
             FsAccessW ''/tmp''])
   \<and> execs (snd (extract_audio (mkdir_fails_world (Some allow_reply) all_exec) (posix ''/srv'') []
        ''/videos/clip.avi'' ''mp3'' None))
     = [spec_extract_command ''/videos/clip.avi'' ''libmp3lame'' ''/tmp/clip.mp3'']"
proof -
  let ?w = "sample_world None (Some allow_reply) all_exec"
  let ?m = "mkdir_fails_world (Some allow_reply) all_exec"
  let ?tr = "[FsAccess ''/videos/clip.avi'', FsMkdir ''/tmp/ffmpeg-output'', FsAccessW ''/tmp/ffmpeg-output'']"
  let ?tm = "[FsAccess ''/videos/clip.avi'', FsMkdir ''/tmp/ffmpeg-output'',
             ConsoleError ''Error creating output directory: EACCES: permission denied'',
             FsAccessW ''/tmp'']"
  have paths: "join (posix ''/srv'') [''/tmp/ffmpeg-output'', ''clip.mp3''] = ''/tmp/ffmpeg-output/clip.mp3''"
    "join (posix ''/srv'') [''/tmp/ffmpeg-output'', ''clip_480p.avi''] = ''/tmp/ffmpeg-output/clip_480p.avi''"
    "join (posix ''/srv'') [''/tmp'', ''clip.mp3''] = ''/tmp/clip.mp3''"
    by (simp_all add: posix_def)
  have e1: "execs (snd (extract_audio ?w (posix ''/srv'') [] ''/videos/clip.avi'' ''mp3'' None))
     = [spec_extract_command ''/videos/clip.avi'' ''libmp3lame'' ''/tmp/ffmpeg-output/clip.mp3'']"
    using default_output_directory [of ?w "posix ''/srv''" "[]" "''/videos/clip.avi''"
        "''/videos/clip.avi''" "''/tmp/ffmpeg-output''" ?tr "[''480p'']"
        "[Notify ''Extract mp3 audio from video clip.avi'']" "''mp3''" "[]"]
    by (simp add: sample_default_check sample_ask sample_messages sample_paths sample_ensure
        audioCodec_def paths)
  have e2: "execs (snd (resize_video ?w (posix ''/srv'') [] ''/videos/clip.avi'' [''480p''] None))
     = [spec_resize_command ''/videos/clip.avi'' ''480p'' ''/tmp/ffmpeg-output/clip_480p.avi'']"
    using default_output_directory [of ?w "posix ''/srv''" "[]" "''/videos/clip.avi''"
        "''/videos/clip.avi''" "''/tmp/ffmpeg-output''" ?tr "[''480p'']"
        "[Notify ''Resize video clip.avi to 480p'']" "''mp3''" "[]"]
    by (simp add: sample_default_check sample_ask sample_messages sample_paths sample_ensure
        RESOLUTION_keys_def RESOLUTIONS_def paths)
  have e3: "execs (snd (extract_audio ?m (posix ''/srv'') [] ''/videos/clip.avi'' ''mp3'' None))
     = [spec_extract_command ''/videos/clip.avi'' ''libmp3lame'' ''/tmp/clip.mp3'']"
    using default_output_directory [of ?m "posix ''/srv''" "[]" "''/videos/clip.avi''"
        "''/videos/clip.avi''" "''/tmp''" ?tm "[''480p'']"
        "[Notify ''Extract mp3 audio from video clip.avi'']" "''mp3''" "''EACCES: permission denied''"]
    by (simp add: mkdir_fails_check mkdir_fails_ask sample_messages sample_paths sample_ensure
        audioCodec_def paths)
  have e4: "fs_mkdir ?m [FsAccess ''/videos/clip.avi''] ''/tmp/ffmpeg-output'' = Some ''EACCES: permission denied''"
    by (simp add: mkdir_fails_world_def)
  from e1 e2 e3 e4 show ?thesis
    by (simp add: sample_default_check mkdir_fails_check)
qed

subsection \<open>The resolutions of the HTTP resize endpoint\<close>

text \<open>
  C10. The HTTP resize endpoint, for an upload whose \<^verbatim>\<open>resolutions\<close> field is absent
  or parses to an array, starts a job for exactly the requested resolutions that are
  among 360p, 480p, 720p and 1080p, in request order, and ignores the others without
  an error. An absent (or empty) field stands for all four. The response is the 400
  that lists the valid options exactly when no requested resolution is valid, and then
  no job is started; no other response to such an upload has status 400.
\<close>

theorem http_resize_resolutions:
  "requested_resolutions hw None = Inr [''360p'', ''480p'', ''720p'', ''1080p'']
   \<and> requested_resolutions hw (Some []) = Inr [''360p'', ''480p'', ''720p'', ''1080p'']
   \<and> (req_file req = Some file \<and> requested_resolutions hw (body_resolutions req) = Inr rs \<longrightarrow>
        snd (resizeVideo hw P req)
          = map (resize_job hw P (up_path file) (parse_name P (up_filename file)))
              (filter (\<lambda>r. r \<in> set [''360p'', ''480p'', ''720p'', ''1080p'']) rs)
        \<and> ((fst (resizeVideo hw P req)
               = Some \<lparr>status = 400,
                        body = ErrorOptions ''No valid resolutions specified''
                                 [''360p'', ''480p'', ''720p'', ''1080p'']\<rparr>)
             = (set rs \<inter> set [''360p'', ''480p'', ''720p'', ''1080p''] = {}))
        \<and> ((\<exists>b. fst (resizeVideo hw P req) = Some \<lparr>status = 400, body = b\<rparr>)
             = (set rs \<inter> set [''360p'', ''480p'', ''720p'', ''1080p''] = {})))"
proof (intro conjI impI)
  show "requested_resolutions hw None = Inr [''360p'', ''480p'', ''720p'', ''1080p'']"
    by (simp add: requested_resolutions_def RESOLUTION_keys_eq)
  show "requested_resolutions hw (Some []) = Inr [''360p'', ''480p'', ''720p'', ''1080p'']"
    by (simp add: requested_resolutions_def RESOLUTION_keys_eq)
next
  assume a: "req_file req = Some file \<and> requested_resolutions hw (body_resolutions req) = Inr rs"
  then have upl: "req_file req = Some file"
    and rs: "requested_resolutions hw (body_resolutions req) = Inr rs"
    by simp_all
  from resizeVideo_jobs [OF upl rs]
  show "snd (resizeVideo hw P req)
          = map (resize_job hw P (up_path file) (parse_name P (up_filename file)))
              (filter (\<lambda>r. r \<in> set [''360p'', ''480p'', ''720p'', ''1080p'']) rs)"
    by (simp add: validResolutions_def RESOLUTION_keys_eq)
  have empty: "(validResolutions rs = []) = (set rs \<inter> set [''360p'', ''480p'', ''720p'', ''1080p''] = {})"
    using validResolutions_empty [of rs] by (simp add: RESOLUTION_keys_eq)
  from resizeVideo_400 [OF upl rs, of P]
  have "(fst (resizeVideo hw P req)
               = Some \<lparr>status = 400,
                        body = ErrorOptions ''No valid resolutions specified''
                                 [''360p'', ''480p'', ''720p'', ''1080p'']\<rparr>)
             = (validResolutions rs = [])"
    by (cases "validResolutions rs = []") (simp_all add: RESOLUTION_keys_eq)
  with empty show "(fst (resizeVideo hw P req)
               = Some \<lparr>status = 400,
                        body = ErrorOptions ''No valid resolutions specified''
                                 [''360p'', ''480p'', ''720p'', ''1080p'']\<rparr>)
             = (set rs \<inter> set [''360p'', ''480p'', ''720p'', ''1080p''] = {})"
    by simp
  from resizeVideo_400 [OF upl rs, of P]
  have "(\<exists>b. fst (resizeVideo hw P req) = Some \<lparr>status = 400, body = b\<rparr>) = (validResolutions rs = [])"
    by (cases "validResolutions rs = []") auto
  with empty show "(\<exists>b. fst (resizeVideo hw P req) = Some \<lparr>status = 400, body = b\<rparr>)
             = (set rs \<inter> set [''360p'', ''480p'', ''720p'', ''1080p''] = {})"
    by simp
qed

theorem http_resize_resolutions_witness:
  \<open>req_file (sample_request (Some ''["720p","4k",7,"360p"]'')) = Some sample_upload
   \<and> requested_resolutions (sample_http (JArr [JStr ''720p'', JStr ''4k'', JNum ''7'', JStr ''360p'']))
        (body_resolutions (sample_request (Some ''["720p","4k",7,"360p"]'')))
      = Inr [''720p'', ''4k'', ''360p'']
   \<and> map job_size (snd (resizeVideo (sample_http (JArr [JStr ''720p'', JStr ''4k'', JNum ''7'', JStr ''360p'']))
        (posix ''/app'') (sample_request (Some ''["720p","4k",7,"360p"]''))))
      = [Some ''1280x720'', Some ''640x360'']
   \<and> fst (resizeVideo (sample_http (JArr [JStr ''720p'', JStr ''4k'', JNum ''7'', JStr ''360p'']))
        (posix ''/app'') (sample_request (Some ''["720p","4k",7,"360p"]'')))
      \<noteq> Some \<lparr>status = 400,
                body = ErrorOptions ''No valid resolutions specified'' [''360p'', ''480p'', ''720p'', ''1080p'']\<rparr>
   \<and> requested_resolutions (sample_http (JArr [JStr ''4k'']))
        (body_resolutions (sample_request (Some ''["4k"]''))) = Inr [''4k'']
   \<and> resizeVideo (sample_http (JArr [JStr ''4k''])) (posix ''/app'') (sample_request (Some ''["4k"]''))
      = (Some \<lparr>status = 400,
                 body = ErrorOptions ''No valid resolutions specified'' [''360p'', ''480p'', ''720p'', ''1080p'']\<rparr>,
         [])\<close>
proof -
  let ?h1 = "sample_http (JArr [JStr ''720p'', JStr ''4k'', JNum ''7'', JStr ''360p''])"
  let ?h2 = "sample_http (JArr [JStr ''4k''])"
  have f: "\<And>t. req_file (sample_request t) = Some sample_upload"
    by (simp add: sample_request_def)
  have r1: \<open>requested_resolutions ?h1 (body_resolutions (sample_request (Some ''["720p","4k",7,"360p"]'')))
      = Inr [''720p'', ''4k'', ''360p'']\<close>
    by (simp add: requested_resolutions_def sample_request_def sample_http_def)
  have r2: \<open>requested_resolutions ?h2 (body_resolutions (sample_request (Some ''["4k"]''))) = Inr [''4k'']\<close>
    by (simp add: requested_resolutions_def sample_request_def sample_http_def)
  note t1 = http_resize_resolutions [of ?h1 \<open>sample_request (Some ''["720p","4k",7,"360p"]'')\<close>
      sample_upload "[''720p'', ''4k'', ''360p'']" "posix ''/app''"]
  note t2 = http_resize_resolutions [of ?h2 \<open>sample_request (Some ''["4k"]'')\<close>
      sample_upload "[''4k'']" "posix ''/app''"]
  have j1: \<open>map job_size (snd (resizeVideo ?h1 (posix ''/app'') (sample_request (Some ''["720p","4k",7,"360p"]''))))
      = [Some ''1280x720'', Some ''640x360'']\<close>
    using t1 f r1 by (simp add: resize_job_def the_size_def RESOLUTIONS_def show_nat_table)
  have s1: \<open>fst (resizeVideo ?h1 (posix ''/app'') (sample_request (Some ''["720p","4k",7,"360p"]'')))
      \<noteq> Some \<lparr>status = 400,
                body = ErrorOptions ''No valid resolutions specified'' [''360p'', ''480p'', ''720p'', ''1080p'']\<rparr>\<close>
    using t1 f r1 by simp
  have s2: \<open>fst (resizeVideo ?h2 (posix ''/app'') (sample_request (Some ''["4k"]'')))
      = Some \<lparr>status = 400,
                body = ErrorOptions ''No valid resolutions specified'' [''360p'', ''480p'', ''720p'', ''1080p'']\<rparr>\<close>
    using t2 f r2 by simp
  have j2: \<open>snd (resizeVideo ?h2 (posix ''/app'') (sample_request (Some ''["4k"]''))) = []\<close>
    using t2 f r2 by simp
  from s2 j2 have \<open>resizeVideo ?h2 (posix ''/app'') (sample_request (Some ''["4k"]''))
      = (Some \<lparr>status = 400,
                 body = ErrorOptions ''No valid resolutions specified'' [''360p'', ''480p'', ''720p'', ''1080p'']\<rparr>,
         [])\<close>
    by (simp add: prod_eq_iff)
  with f r1 r2 j1 s1 show ?thesis by simp
qed

end
